theory Spec2Isabelle
  imports Main "HOL-Library.Word" "HOL-Library.Multiset" "HOL-Library.Char_ord"
    "HOL-Library.List_Lexorder"
begin

section \<open>The trace recorder of tracer.cpp\<close>

text \<open>
  The recorder of \<^verbatim>\<open>backend/src/cpp/tracer.cpp\<close> keeps its state in file-level
  statics and function-local statics. The model gathers them in one record that every
  handler takes and returns. C identifiers that start with underscores lose them
  (\<^verbatim>\<open>__trace_assign_loc\<close> is \<open>trace_assign_loc\<close>), since an Isabelle name cannot
  start with one.

  What is left to the external collaborators is an input of the model:
  symbol resolution (\<^verbatim>\<open>dladdr\<close>, then \<^verbatim>\<open>demangle\<close>) hands in its result, the
  allocator hands in the pointer it returned, \<^verbatim>\<open>fopen\<close> hands in whether it
  succeeded. The \<^verbatim>\<open>ts\<close> field of a record is read from the steady clock and is
  advisory; it is left out of the event. A run is the sequence of calls on one thread,
  so the write lock and the flushing of the standard streams have no counterpart. The
  payload that the source formats with
  \<^verbatim>\<open>snprintf\<close> into a fixed buffer is kept as the list of its key/value pairs, in
  the order of the format string; truncation by the buffer size and the separators
  between records are serialisation detail and are not modelled.
\<close>

subsection \<open>Data model\<close>

type_synonym address = nat

definition nullptr :: address where
  "nullptr = 0"

typedecl c_double

text \<open>
  C \<^verbatim>\<open>int\<close> and \<^verbatim>\<open>long long\<close> arguments are carried as \<open>int\<close>: the handlers
  pass them through; the only arithmetic is the increment of the depth, which the ceiling
  of 2048 bounds, and of a loop's iteration count. The event counter is an
  \<^verbatim>\<open>unsigned long\<close> and is a 64-bit word, so its increment wraps.
\<close>

datatype jvalue =
    JInt int
  | JStr string
  | JBool bool
  | JNull
  | JPtr address
  | JList "int list"
  | JDouble c_double
  | JSize nat
  | JUChar nat

type_synonym extra = "(string \<times> jvalue) list"

record event =
  ev_id :: "64 word"
  ev_type :: string
  ev_addr :: address
  ev_func :: string
  ev_depth :: int
  ev_extra :: "extra option"

text \<open>
  What is written to the output file: the envelope header, the records, and the three
  parts of the trailer (its opening, the names of the tracked functions, the total).
\<close>

datatype out_item =
    Header
  | Record event
  | TrailerOpen
  | TrailerNames "string set"
  | TrailerTotal "64 word"

record ArrayInfo =
  info_name :: string
  info_baseType :: string
  info_address :: address
  info_dim1 :: int
  info_dim2 :: int
  info_dim3 :: int
  info_isStack :: bool

record ArrayElementKey =
  arrayName :: string
  idx1 :: int
  idx2 :: int
  idx3 :: int

text \<open>
  \<^verbatim>\<open>operator<\<close> of the key, with \<^verbatim>\<open>std::string\<close> compared
  lexicographically by character code. \<^verbatim>\<open>std::map\<close> takes two keys for the same
  when neither is less than the other; the element values are modelled as a map on the
  key record.
\<close>

definition key_less :: "ArrayElementKey \<Rightarrow> ArrayElementKey \<Rightarrow> bool" where
  "key_less k other =
     (if arrayName k \<noteq> arrayName other then arrayName k < arrayName other
      else if idx1 k \<noteq> idx1 other then idx1 k < idx1 other
      else if idx2 k \<noteq> idx2 other then idx2 k < idx2 other
      else idx3 k < idx3 other)"

record PointerInfo =
  pointerName :: string
  aliasedAddress :: address
  isHeap :: bool
  heapAddress :: address

record CallFrame =
  functionName :: string
  pointerAliases :: "string \<rightharpoonup> PointerInfo"
  activeLoops :: "int list"
  loopIterations :: "int \<rightharpoonup> int"

text \<open>
  \<open>g_trace_file\<close> says whether the \<^verbatim>\<open>FILE*\<close> is non-null, \<open>sink_open\<close> whether the
  stream behind it is open, and \<open>sink_out\<close> is what has been written to the output file
  (the stream is unbuffered and flushed after every record). \<open>g_call_stack\<close> holds the
  vector innermost frame first: \<^verbatim>\<open>back()\<close> is \<open>hd\<close>, \<^verbatim>\<open>push_back\<close> is \<open>#\<close>,
  \<^verbatim>\<open>pop_back\<close> is \<open>tl\<close>, and the walk from \<^verbatim>\<open>rbegin()\<close> to \<^verbatim>\<open>rend()\<close> is the
  list order. \<open>activeLoops\<close> is in the vector's own order (\<^verbatim>\<open>push_back\<close> appends).
\<close>

record tracer_state =
  g_trace_file :: bool
  sink_open :: bool
  sink_out :: "out_item list"
  g_depth :: int
  g_event_counter :: "64 word"
  g_inside_tracer :: bool
  g_tracer_disabled :: bool
  g_variable_values :: "string \<rightharpoonup> int"
  g_array_registry :: "address \<rightharpoonup> ArrayInfo"
  g_address_to_name :: "address \<rightharpoonup> string"
  g_array_element_values :: "ArrayElementKey \<rightharpoonup> int"
  g_tracked_functions :: "string set"
  g_current_function :: string
  g_pointer_registry :: "string \<rightharpoonup> PointerInfo"
  g_call_stack :: "CallFrame list"

text \<open>The values the statics have when the process image is loaded.\<close>

definition tracer_initial :: tracer_state where
  "tracer_initial =
     \<lparr> g_trace_file = False, sink_open = False, sink_out = [],
       g_depth = 0, g_event_counter = 0,
       g_inside_tracer = False, g_tracer_disabled = False,
       g_variable_values = Map.empty, g_array_registry = Map.empty,
       g_address_to_name = Map.empty, g_array_element_values = Map.empty,
       g_tracked_functions = {}, g_current_function = ''main'',
       g_pointer_registry = Map.empty, g_call_stack = [] \<rparr>"

subsection \<open>Safety layer and event recorder\<close>

text \<open>
  \<^verbatim>\<open>TRACER_GUARD_ENTER\<close> returns from the calling handler when the tracer is disabled
  or the thread is already inside it; otherwise it sets the flag and the handler's body
  \<open>k\<close> runs. \<^verbatim>\<open>TRACER_GUARD_EXIT\<close> clears the flag.
\<close>

definition TRACER_GUARD_ENTER ::
  "tracer_state \<Rightarrow> (tracer_state \<Rightarrow> tracer_state) \<Rightarrow> tracer_state" where
  "TRACER_GUARD_ENTER s k =
     (if g_tracer_disabled s then s
      else if g_inside_tracer s then s
      else k (s\<lparr>g_inside_tracer := True\<rparr>))"

definition TRACER_GUARD_EXIT :: "tracer_state \<Rightarrow> tracer_state" where
  "TRACER_GUARD_EXIT s = s\<lparr>g_inside_tracer := False\<rparr>"

definition json_safe_path :: "string \<Rightarrow> string" where
  "json_safe_path raw = map (\<lambda>c. if c = CHR 0x5C then CHR ''/'' else c) raw"

definition normalize_function_name :: "string \<Rightarrow> string" where
  "normalize_function_name nm =
     filter (\<lambda>c. c \<noteq> CHR 0x0A) (filter (\<lambda>c. c \<noteq> CHR 0x0D) nm)"

definition write_json_event ::
  "string \<Rightarrow> address \<Rightarrow> string \<Rightarrow> int \<Rightarrow> extra option \<Rightarrow> tracer_state \<Rightarrow> tracer_state" where
  "write_json_event type addr func_name depth ext s =
     (if \<not> g_trace_file s \<or> g_depth s \<ge> 2048 then s
      else s\<lparr> sink_out := sink_out s @
                  [Record \<lparr> ev_id = g_event_counter s, ev_type = type, ev_addr = addr,
                            ev_func = func_name, ev_depth = depth, ev_extra = ext \<rparr>],
               g_event_counter := g_event_counter s + 1 \<rparr>)"

text \<open>
  \<^verbatim>\<open>findPointerInfo\<close>: the frames from the innermost outward, then the process-wide
  registry; \<open>None\<close> is the null pointer it returns when the name is unknown.
\<close>

fun find_in_frames :: "CallFrame list \<Rightarrow> string \<Rightarrow> PointerInfo option" where
  "find_in_frames [] ptrName = None"
| "find_in_frames (fr # frs) ptrName =
     (case pointerAliases fr ptrName of
        Some pinfo \<Rightarrow> Some pinfo
      | None \<Rightarrow> find_in_frames frs ptrName)"

definition findPointerInfo :: "string \<Rightarrow> tracer_state \<Rightarrow> PointerInfo option" where
  "findPointerInfo ptrName s =
     (case find_in_frames (g_call_stack s) ptrName of
        Some pinfo \<Rightarrow> Some pinfo
      | None \<Rightarrow> g_pointer_registry s ptrName)"

subsection \<open>Allocation hooks\<close>

text \<open>
  The hooks forward to the real allocator; \<open>ptr\<close> is the pointer it returned (for the
  allocating hooks) or the pointer being released. They do not use the guard macro: they
  test both flags and the depth themselves and leave without touching the state. The
  three allocating hooks have the same body up to the name they record, and so have the
  three releasing hooks; each body is written once, with the name as a parameter.
\<close>

definition heap_alloc_hook :: "string \<Rightarrow> nat \<Rightarrow> address \<Rightarrow> tracer_state \<Rightarrow> tracer_state" where
  "heap_alloc_hook hook_name sz ptr s =
     (if g_tracer_disabled s \<or> g_inside_tracer s \<or> g_depth s \<ge> 2048 then s
      else
        let s = s\<lparr>g_inside_tracer := True\<rparr>;
            s = (if ptr \<noteq> nullptr \<and> g_trace_file s \<and> \<not> g_tracer_disabled s
                 then write_json_event ''heap_alloc'' ptr hook_name (g_depth s)
                        (Some [(''size'', JSize sz), (''isHeap'', JBool True)]) s
                 else s)
        in TRACER_GUARD_EXIT s)"

definition heap_free_hook :: "string \<Rightarrow> address \<Rightarrow> tracer_state \<Rightarrow> tracer_state" where
  "heap_free_hook hook_name ptr s =
     (if g_tracer_disabled s \<or> g_inside_tracer s \<or> g_depth s \<ge> 2048 then s
      else
        let s = s\<lparr>g_inside_tracer := True\<rparr>;
            s = (if ptr \<noteq> nullptr \<and> g_trace_file s \<and> \<not> g_tracer_disabled s
                 then write_json_event ''heap_free'' ptr hook_name (g_depth s) None s
                 else s)
        in TRACER_GUARD_EXIT s)"

definition operator_new :: "nat \<Rightarrow> address \<Rightarrow> tracer_state \<Rightarrow> tracer_state" where
  "operator_new sz ptr s = heap_alloc_hook ''operator new'' sz ptr s"

definition operator_new_array :: "nat \<Rightarrow> address \<Rightarrow> tracer_state \<Rightarrow> tracer_state" where
  "operator_new_array sz ptr s = heap_alloc_hook ''operator new[]'' sz ptr s"

definition operator_delete :: "address \<Rightarrow> tracer_state \<Rightarrow> tracer_state" where
  "operator_delete ptr s = heap_free_hook ''operator delete'' ptr s"

definition operator_delete_array :: "address \<Rightarrow> tracer_state \<Rightarrow> tracer_state" where
  "operator_delete_array ptr s = heap_free_hook ''operator delete[]'' ptr s"

definition malloc_hook :: "nat \<Rightarrow> address \<Rightarrow> tracer_state \<Rightarrow> tracer_state" where
  "malloc_hook sz ptr s = heap_alloc_hook ''malloc'' sz ptr s"

definition free_hook :: "address \<Rightarrow> tracer_state \<Rightarrow> tracer_state" where
  "free_hook ptr s = heap_free_hook ''free'' ptr s"

subsection \<open>Locals that own a string\<close>

text \<open>
  A handler's locals are destroyed when it returns, which is after its
  \<^verbatim>\<open>TRACER_GUARD_EXIT\<close>, in the reverse order of their construction (the members of
  a struct in the reverse order of their declaration). A \<^verbatim>\<open>std::string\<close> keeps up
  to 15 characters in the object itself (the library of the toolchain that provides
  \<^verbatim>\<open>cxxabi.h\<close>); a longer one owns a heap buffer, which its destructor gives to
  \<^verbatim>\<open>operator delete\<close>, and that is the hook above. The buffer was allocated while
  the in-tracer flag was set, so its allocation is not recorded; its address is what the
  allocator returned and is an argument of the handler. Temporaries and copies that are
  created and destroyed between the guard macros pass the hooks unrecorded and are left
  out.
\<close>

definition on_heap :: "string \<Rightarrow> bool" where
  "on_heap str = (15 < length str)"

definition destroy_string :: "string \<Rightarrow> address \<Rightarrow> tracer_state \<Rightarrow> tracer_state" where
  "destroy_string str buf s = (if on_heap str then operator_delete buf s else s)"

subsection \<open>Notification handlers\<close>

text \<open>
  Every handler follows the source line by line: the guard, the check of the sink
  handle with its own \<^verbatim>\<open>TRACER_GUARD_EXIT\<close>, the registry updates and the call of
  the recorder in the order of the source, and last the destruction of its locals. The
  early returns are taken before any local is constructed. String arguments are taken
  to be non-null. A \<open>_buf\<close> argument is the address of the heap buffer of the local
  it is named after, and is not looked at when that local is short.
\<close>

definition trace_output_flush_loc :: "string \<Rightarrow> int \<Rightarrow> tracer_state \<Rightarrow> tracer_state" where
  "trace_output_flush_loc file line s =
     TRACER_GUARD_ENTER s (\<lambda>s. TRACER_GUARD_EXIT s)"

definition trace_condition_eval_loc ::
  "int \<Rightarrow> string \<Rightarrow> int \<Rightarrow> string \<Rightarrow> int \<Rightarrow> address \<Rightarrow> tracer_state \<Rightarrow> tracer_state" where
  "trace_condition_eval_loc conditionId expression res file line f_buf s =
     TRACER_GUARD_ENTER s (\<lambda>s.
       if \<not> g_trace_file s then TRACER_GUARD_EXIT s
       else
         let f = json_safe_path file;
             ext = [(''conditionId'', JInt conditionId), (''expression'', JStr expression),
                    (''result'', JInt res), (''file'', JStr f), (''line'', JInt line)];
             s = write_json_event ''condition_eval'' nullptr (g_current_function s)
                   (g_depth s) (Some ext) s
         in destroy_string f f_buf (TRACER_GUARD_EXIT s))"

definition trace_branch_taken_loc ::
  "int \<Rightarrow> string \<Rightarrow> string \<Rightarrow> int \<Rightarrow> address \<Rightarrow> tracer_state \<Rightarrow> tracer_state" where
  "trace_branch_taken_loc conditionId branchType file line f_buf s =
     TRACER_GUARD_ENTER s (\<lambda>s.
       if \<not> g_trace_file s then TRACER_GUARD_EXIT s
       else
         let f = json_safe_path file;
             ext = [(''conditionId'', JInt conditionId), (''branchType'', JStr branchType),
                    (''file'', JStr f), (''line'', JInt line)];
             s = write_json_event ''branch_taken'' nullptr (g_current_function s)
                   (g_depth s) (Some ext) s
         in destroy_string f f_buf (TRACER_GUARD_EXIT s))"

definition trace_array_create_loc ::
  "string \<Rightarrow> string \<Rightarrow> address \<Rightarrow> int \<Rightarrow> int \<Rightarrow> int \<Rightarrow> bool \<Rightarrow> string \<Rightarrow> int
     \<Rightarrow> address \<Rightarrow> address \<Rightarrow> address \<Rightarrow> tracer_state \<Rightarrow> tracer_state" where
  "trace_array_create_loc name baseType addr dim1 dim2 dim3 isStack file line
       f_buf name_buf baseType_buf s =
     TRACER_GUARD_ENTER s (\<lambda>s.
       if \<not> g_trace_file s then TRACER_GUARD_EXIT s
       else
         let s = s\<lparr>g_address_to_name := (g_address_to_name s)(addr \<mapsto> name)\<rparr>;
             f = json_safe_path file;
             dims = (if dim3 > 0 then [dim1, dim2, dim3]
                     else if dim2 > 0 then [dim1, dim2]
                     else [dim1]);
             ext = [(''name'', JStr name), (''baseType'', JStr baseType),
                    (''dimensions'', JList dims), (''isStack'', JBool isStack),
                    (''file'', JStr f), (''line'', JInt line)];
             s = write_json_event ''array_create'' addr (g_current_function s)
                   (g_depth s) (Some ext) s;
             info = \<lparr> info_name = name, info_baseType = baseType, info_address = addr,
                      info_dim1 = dim1, info_dim2 = dim2, info_dim3 = dim3,
                      info_isStack = isStack \<rparr>;
             s = s\<lparr>g_array_registry := (g_array_registry s)(addr \<mapsto> info)\<rparr>;
             s = TRACER_GUARD_EXIT s;
             s = destroy_string baseType baseType_buf s;
             s = destroy_string name name_buf s
         in destroy_string f f_buf s)"

text \<open>\<^verbatim>\<open>(int)c\<close> of a plain \<^verbatim>\<open>char\<close>, which is signed on the targets with \<^verbatim>\<open>dlfcn\<close>.\<close>

definition char_to_int :: "char \<Rightarrow> int" where
  "char_to_int c = (let n = of_char c in if n < 128 then n else n - 256)"

text \<open>
  The loop of \<^verbatim>\<open>__trace_array_init_string_loc\<close> runs over the characters of the
  literal and its terminating zero, each paired with its index.
\<close>

primrec array_init_string_loop ::
  "string \<Rightarrow> string \<Rightarrow> int \<Rightarrow> (nat \<times> char) list \<Rightarrow> tracer_state \<Rightarrow> tracer_state" where
  "array_init_string_loop name f line [] s = s"
| "array_init_string_loop name f line (ic # rest) s =
     (let i = fst ic; c = snd ic;
          ext = [(''name'', JStr name), (''indices'', JList [int i]),
                 (''value'', JInt (char_to_int c)), (''char'', JUChar (of_char c)),
                 (''file'', JStr f), (''line'', JInt line)];
          s = write_json_event ''array_index_assign'' nullptr (g_current_function s)
                (g_depth s) (Some ext) s;
          key = \<lparr> arrayName = name, idx1 = int i, idx2 = - 1, idx3 = - 1 \<rparr>;
          s = s\<lparr>g_array_element_values := (g_array_element_values s)(key \<mapsto> char_to_int c)\<rparr>
      in array_init_string_loop name f line rest s)"

definition trace_array_init_string_loc ::
  "string \<Rightarrow> string \<Rightarrow> string \<Rightarrow> int \<Rightarrow> address \<Rightarrow> tracer_state \<Rightarrow> tracer_state" where
  "trace_array_init_string_loc name str_literal file line f_buf s =
     TRACER_GUARD_ENTER s (\<lambda>s.
       if \<not> g_trace_file s then TRACER_GUARD_EXIT s
       else
         let f = json_safe_path file;
             len = length str_literal;
             s = array_init_string_loop name f line
                   (zip [0..<Suc len] (str_literal @ [CHR 0x00])) s
         in destroy_string f f_buf (TRACER_GUARD_EXIT s))"

text \<open>
  \<^verbatim>\<open>__trace_array_init_loc\<close> reads \<^verbatim>\<open>count\<close> ints (here \<open>cnt\<close>) behind the
  pointer it is given; \<open>intValues i\<close> is the int at index \<open>i\<close> there.
\<close>

primrec array_init_loop ::
  "string \<Rightarrow> (nat \<Rightarrow> int) \<Rightarrow> string \<Rightarrow> int \<Rightarrow> nat list \<Rightarrow> tracer_state \<Rightarrow> tracer_state" where
  "array_init_loop name intValues f line [] s = s"
| "array_init_loop name intValues f line (i # rest) s =
     (let ext = [(''name'', JStr name), (''indices'', JList [int i]),
                 (''value'', JInt (intValues i)), (''file'', JStr f), (''line'', JInt line)];
          s = write_json_event ''array_index_assign'' nullptr (g_current_function s)
                (g_depth s) (Some ext) s;
          key = \<lparr> arrayName = name, idx1 = int i, idx2 = - 1, idx3 = - 1 \<rparr>;
          s = s\<lparr>g_array_element_values := (g_array_element_values s)(key \<mapsto> intValues i)\<rparr>
      in array_init_loop name intValues f line rest s)"

definition trace_array_init_loc ::
  "string \<Rightarrow> (nat \<Rightarrow> int) \<Rightarrow> int \<Rightarrow> string \<Rightarrow> int \<Rightarrow> address \<Rightarrow> tracer_state \<Rightarrow> tracer_state" where
  "trace_array_init_loc name intValues cnt file line f_buf s =
     TRACER_GUARD_ENTER s (\<lambda>s.
       if \<not> g_trace_file s then TRACER_GUARD_EXIT s
       else
         let f = json_safe_path file;
             s = array_init_loop name intValues f line [0..<nat cnt] s
         in destroy_string f f_buf (TRACER_GUARD_EXIT s))"

definition trace_array_index_assign_loc ::
  "string \<Rightarrow> int \<Rightarrow> int \<Rightarrow> int \<Rightarrow> int \<Rightarrow> string \<Rightarrow> int
     \<Rightarrow> address \<Rightarrow> address \<Rightarrow> tracer_state \<Rightarrow> tracer_state" where
  "trace_array_index_assign_loc name i1 i2 i3 val file line key_buf f_buf s =
     TRACER_GUARD_ENTER s (\<lambda>s.
       if \<not> g_trace_file s then TRACER_GUARD_EXIT s
       else
         let key = \<lparr> arrayName = name, idx1 = i1, idx2 = i2, idx3 = i3 \<rparr>;
             s = s\<lparr>g_array_element_values := (g_array_element_values s)(key \<mapsto> val)\<rparr>;
             f = json_safe_path file;
             indices = (if i3 \<ge> 0 then [i1, i2, i3]
                        else if i2 \<ge> 0 then [i1, i2]
                        else [i1]);
             ext = [(''name'', JStr name), (''indices'', JList indices),
                    (''value'', JInt val), (''file'', JStr f), (''line'', JInt line)];
             s = write_json_event ''array_index_assign'' nullptr (g_current_function s)
                   (g_depth s) (Some ext) s;
             s = TRACER_GUARD_EXIT s;
             s = destroy_string f f_buf s
         in destroy_string name key_buf s)"

definition trace_pointer_alias_loc ::
  "string \<Rightarrow> address \<Rightarrow> bool \<Rightarrow> string \<Rightarrow> int
     \<Rightarrow> address \<Rightarrow> address \<Rightarrow> address \<Rightarrow> tracer_state \<Rightarrow> tracer_state" where
  "trace_pointer_alias_loc name aliased decayedFromArray file line alias_buf f_buf pinfo_buf s =
     TRACER_GUARD_ENTER s (\<lambda>s.
       if \<not> g_trace_file s then TRACER_GUARD_EXIT s
       else
         let aliasOfName = (case g_address_to_name s aliased of
                              Some n \<Rightarrow> n | None \<Rightarrow> ''unknown'');
             f = json_safe_path file;
             ext = [(''name'', JStr name), (''aliasOf'', JStr aliasOfName),
                    (''aliasedAddress'', JPtr aliased),
                    (''decayedFromArray'', JBool decayedFromArray),
                    (''file'', JStr f), (''line'', JInt line)];
             s = write_json_event ''pointer_alias'' aliased (g_current_function s)
                   (g_depth s) (Some ext) s;
             pinfo = \<lparr> pointerName = name, aliasedAddress = aliased, isHeap = False,
                       heapAddress = nullptr \<rparr>;
             s = (case g_call_stack s of
                    fr # frs \<Rightarrow>
                      s\<lparr>g_call_stack :=
                          fr\<lparr>pointerAliases := (pointerAliases fr)(name \<mapsto> pinfo)\<rparr> # frs\<rparr>
                  | [] \<Rightarrow>
                      s\<lparr>g_pointer_registry := (g_pointer_registry s)(name \<mapsto> pinfo)\<rparr>);
             s = TRACER_GUARD_EXIT s;
             s = destroy_string name pinfo_buf s;
             s = destroy_string f f_buf s
         in destroy_string aliasOfName alias_buf s)"

definition trace_pointer_deref_write_loc ::
  "string \<Rightarrow> int \<Rightarrow> string \<Rightarrow> int \<Rightarrow> address \<Rightarrow> address \<Rightarrow> tracer_state \<Rightarrow> tracer_state" where
  "trace_pointer_deref_write_loc ptrName val file line f_buf target_buf s =
     TRACER_GUARD_ENTER s (\<lambda>s.
       if \<not> g_trace_file s then TRACER_GUARD_EXIT s
       else
         let f = json_safe_path file;
             pinfo = findPointerInfo ptrName s;
             heap = (case pinfo of Some p \<Rightarrow> isHeap p | None \<Rightarrow> False);
             targetAddress = (case pinfo of Some p \<Rightarrow> aliasedAddress p | None \<Rightarrow> nullptr);
             targetName = (case pinfo of
                             Some p \<Rightarrow> (case g_address_to_name s targetAddress of
                                          Some n \<Rightarrow> n | None \<Rightarrow> ''unknown'')
                           | None \<Rightarrow> ''unknown'');
             ext = [(''pointerName'', JStr ptrName), (''value'', JInt val),
                    (''targetName'', JStr targetName), (''isHeap'', JBool heap),
                    (''file'', JStr f), (''line'', JInt line)];
             s = write_json_event ''pointer_deref_write'' targetAddress
                   (g_current_function s) (g_depth s) (Some ext) s;
             s = (if heap then
                    write_json_event ''heap_write'' targetAddress (g_current_function s)
                      (g_depth s)
                      (Some [(''address'', JPtr targetAddress), (''value'', JInt val),
                             (''file'', JStr f), (''line'', JInt line)]) s
                  else s);
             s = TRACER_GUARD_EXIT s;
             s = destroy_string targetName target_buf s
         in destroy_string f f_buf s)"

definition trace_declare_loc ::
  "string \<Rightarrow> string \<Rightarrow> address \<Rightarrow> string \<Rightarrow> int \<Rightarrow> address \<Rightarrow> tracer_state \<Rightarrow> tracer_state" where
  "trace_declare_loc name type addr file line f_buf s =
     TRACER_GUARD_ENTER s (\<lambda>s.
       if \<not> g_trace_file s then TRACER_GUARD_EXIT s
       else
         let s = s\<lparr>g_address_to_name := (g_address_to_name s)(addr \<mapsto> name)\<rparr>;
             f = json_safe_path file;
             ext = [(''name'', JStr name), (''varType'', JStr type), (''value'', JNull),
                    (''address'', JPtr addr), (''file'', JStr f), (''line'', JInt line)];
             s = write_json_event ''declare'' addr name (g_depth s) (Some ext) s
         in destroy_string f f_buf (TRACER_GUARD_EXIT s))"

definition trace_assign_loc ::
  "string \<Rightarrow> int \<Rightarrow> string \<Rightarrow> int \<Rightarrow> address \<Rightarrow> tracer_state \<Rightarrow> tracer_state" where
  "trace_assign_loc name val file line f_buf s =
     TRACER_GUARD_ENTER s (\<lambda>s.
       if \<not> g_trace_file s then TRACER_GUARD_EXIT s
       else
         let s = s\<lparr>g_variable_values := (g_variable_values s)(name \<mapsto> val)\<rparr>;
             f = json_safe_path file;
             ext = [(''name'', JStr name), (''value'', JInt val),
                    (''file'', JStr f), (''line'', JInt line)];
             s = write_json_event ''assign'' nullptr name (g_depth s) (Some ext) s
         in destroy_string f f_buf (TRACER_GUARD_EXIT s))"

definition trace_pointer_heap_init_loc ::
  "string \<Rightarrow> address \<Rightarrow> string \<Rightarrow> int \<Rightarrow> address \<Rightarrow> tracer_state \<Rightarrow> tracer_state" where
  "trace_pointer_heap_init_loc ptrName heapAddr file line pinfo_buf s =
     TRACER_GUARD_ENTER s (\<lambda>s.
       if \<not> g_trace_file s then TRACER_GUARD_EXIT s
       else
         let pinfo = \<lparr> pointerName = ptrName, aliasedAddress = heapAddr, isHeap = True,
                       heapAddress = heapAddr \<rparr>;
             s = (case g_call_stack s of
                    fr # frs \<Rightarrow>
                      s\<lparr>g_call_stack :=
                          fr\<lparr>pointerAliases := (pointerAliases fr)(ptrName \<mapsto> pinfo)\<rparr> # frs\<rparr>
                  | [] \<Rightarrow> s);
             s = s\<lparr>g_pointer_registry := (g_pointer_registry s)(ptrName \<mapsto> pinfo)\<rparr>
         in destroy_string ptrName pinfo_buf (TRACER_GUARD_EXIT s))"

definition trace_control_flow_loc ::
  "string \<Rightarrow> string \<Rightarrow> int \<Rightarrow> address \<Rightarrow> tracer_state \<Rightarrow> tracer_state" where
  "trace_control_flow_loc controlType file line f_buf s =
     TRACER_GUARD_ENTER s (\<lambda>s.
       if \<not> g_trace_file s then TRACER_GUARD_EXIT s
       else
         let f = json_safe_path file;
             ext = [(''controlType'', JStr controlType), (''file'', JStr f),
                    (''line'', JInt line)];
             s = write_json_event ''control_flow'' nullptr (g_current_function s)
                   (g_depth s) (Some ext) s
         in destroy_string f f_buf (TRACER_GUARD_EXIT s))"

text \<open>
  Loop tracking lives in the innermost frame. \<^verbatim>\<open>operator[]\<close> of \<^verbatim>\<open>std::map\<close>
  inserts a zero for a key that is absent, also where the source only reads it.
\<close>

definition trace_loop_start_loc ::
  "int \<Rightarrow> string \<Rightarrow> string \<Rightarrow> int \<Rightarrow> address \<Rightarrow> tracer_state \<Rightarrow> tracer_state" where
  "trace_loop_start_loc loopId loopType file line f_buf s =
     TRACER_GUARD_ENTER s (\<lambda>s.
       if \<not> g_trace_file s then TRACER_GUARD_EXIT s
       else
         let s = (case g_call_stack s of
                    fr # frs \<Rightarrow>
                      s\<lparr>g_call_stack :=
                          fr\<lparr>activeLoops := activeLoops fr @ [loopId],
                             loopIterations := (loopIterations fr)(loopId \<mapsto> 0)\<rparr> # frs\<rparr>
                  | [] \<Rightarrow> s);
             f = json_safe_path file;
             ext = [(''loopId'', JInt loopId), (''loopType'', JStr loopType),
                    (''file'', JStr f), (''line'', JInt line)];
             s = write_json_event ''loop_start'' nullptr (g_current_function s)
                   (g_depth s) (Some ext) s
         in destroy_string f f_buf (TRACER_GUARD_EXIT s))"

definition trace_loop_body_start_loc ::
  "int \<Rightarrow> string \<Rightarrow> int \<Rightarrow> address \<Rightarrow> tracer_state \<Rightarrow> tracer_state" where
  "trace_loop_body_start_loc loopId file line f_buf s =
     TRACER_GUARD_ENTER s (\<lambda>s.
       if \<not> g_trace_file s then TRACER_GUARD_EXIT s
       else
         let iteration = (case g_call_stack s of
                            fr # frs \<Rightarrow>
                              (case loopIterations fr loopId of
                                 Some n \<Rightarrow> n + 1 | None \<Rightarrow> 1)
                          | [] \<Rightarrow> 0);
             s = (case g_call_stack s of
                    fr # frs \<Rightarrow>
                      s\<lparr>g_call_stack :=
                          fr\<lparr>loopIterations := (loopIterations fr)(loopId \<mapsto> iteration)\<rparr>
                            # frs\<rparr>
                  | [] \<Rightarrow> s);
             f = json_safe_path file;
             ext = [(''loopId'', JInt loopId), (''iteration'', JInt iteration),
                    (''file'', JStr f), (''line'', JInt line)];
             s = write_json_event ''loop_body_start'' nullptr (g_current_function s)
                   (g_depth s) (Some ext) s
         in destroy_string f f_buf (TRACER_GUARD_EXIT s))"

definition trace_loop_iteration_end_loc ::
  "int \<Rightarrow> string \<Rightarrow> int \<Rightarrow> address \<Rightarrow> tracer_state \<Rightarrow> tracer_state" where
  "trace_loop_iteration_end_loc loopId file line f_buf s =
     TRACER_GUARD_ENTER s (\<lambda>s.
       if \<not> g_trace_file s then TRACER_GUARD_EXIT s
       else
         let iteration = (case g_call_stack s of
                            fr # frs \<Rightarrow>
                              (case loopIterations fr loopId of
                                 Some n \<Rightarrow> n | None \<Rightarrow> 0)
                          | [] \<Rightarrow> 0);
             s = (case g_call_stack s of
                    fr # frs \<Rightarrow>
                      s\<lparr>g_call_stack :=
                          fr\<lparr>loopIterations := (loopIterations fr)(loopId \<mapsto> iteration)\<rparr>
                            # frs\<rparr>
                  | [] \<Rightarrow> s);
             f = json_safe_path file;
             ext = [(''loopId'', JInt loopId), (''iteration'', JInt iteration),
                    (''file'', JStr f), (''line'', JInt line)];
             s = write_json_event ''loop_iteration_end'' nullptr (g_current_function s)
                   (g_depth s) (Some ext) s
         in destroy_string f f_buf (TRACER_GUARD_EXIT s))"

text \<open>
  \<^verbatim>\<open>std::find\<close> and \<^verbatim>\<open>erase\<close> take the first occurrence of the id out of
  \<open>activeLoops\<close>, which is \<open>remove1\<close>.
\<close>

definition trace_loop_end_loc ::
  "int \<Rightarrow> string \<Rightarrow> int \<Rightarrow> address \<Rightarrow> tracer_state \<Rightarrow> tracer_state" where
  "trace_loop_end_loc loopId file line f_buf s =
     TRACER_GUARD_ENTER s (\<lambda>s.
       if \<not> g_trace_file s then TRACER_GUARD_EXIT s
       else
         let s = (case g_call_stack s of
                    fr # frs \<Rightarrow>
                      s\<lparr>g_call_stack :=
                          fr\<lparr>activeLoops := remove1 loopId (activeLoops fr),
                             loopIterations := (loopIterations fr)(loopId := None)\<rparr> # frs\<rparr>
                  | [] \<Rightarrow> s);
             f = json_safe_path file;
             ext = [(''loopId'', JInt loopId), (''file'', JStr f), (''line'', JInt line)];
             s = write_json_event ''loop_end'' nullptr (g_current_function s)
                   (g_depth s) (Some ext) s
         in destroy_string f f_buf (TRACER_GUARD_EXIT s))"

definition trace_loop_condition_loc ::
  "int \<Rightarrow> int \<Rightarrow> string \<Rightarrow> int \<Rightarrow> address \<Rightarrow> tracer_state \<Rightarrow> tracer_state" where
  "trace_loop_condition_loc loopId res file line f_buf s =
     TRACER_GUARD_ENTER s (\<lambda>s.
       if \<not> g_trace_file s then TRACER_GUARD_EXIT s
       else
         let f = json_safe_path file;
             ext = [(''loopId'', JInt loopId), (''result'', JInt res),
                    (''file'', JStr f), (''line'', JInt line)];
             s = write_json_event ''loop_condition'' nullptr (g_current_function s)
                   (g_depth s) (Some ext) s
         in destroy_string f f_buf (TRACER_GUARD_EXIT s))"

text \<open>
  \<^verbatim>\<open>returnType\<close> and \<^verbatim>\<open>destinationSymbol\<close> may be null pointers, which the source
  tests for; they are options.
\<close>

definition trace_return_loc ::
  "int \<Rightarrow> string option \<Rightarrow> string option \<Rightarrow> string \<Rightarrow> int
     \<Rightarrow> address \<Rightarrow> tracer_state \<Rightarrow> tracer_state" where
  "trace_return_loc val returnType destinationSymbol file line f_buf s =
     TRACER_GUARD_ENTER s (\<lambda>s.
       if \<not> g_trace_file s then TRACER_GUARD_EXIT s
       else
         let f = json_safe_path file;
             rt = (case returnType of Some t \<Rightarrow> t | None \<Rightarrow> ''auto'');
             ext = (case destinationSymbol of
                      Some (c # cs) \<Rightarrow>
                        [(''value'', JInt val), (''returnType'', JStr rt),
                         (''destinationSymbol'', JStr (c # cs)),
                         (''file'', JStr f), (''line'', JInt line)]
                    | _ \<Rightarrow>
                        [(''value'', JInt val), (''returnType'', JStr rt),
                         (''file'', JStr f), (''line'', JInt line)]);
             s = write_json_event ''return'' nullptr (g_current_function s)
                   (g_depth s) (Some ext) s
         in destroy_string f f_buf (TRACER_GUARD_EXIT s))"

definition trace_block_enter_loc ::
  "int \<Rightarrow> string \<Rightarrow> int \<Rightarrow> address \<Rightarrow> tracer_state \<Rightarrow> tracer_state" where
  "trace_block_enter_loc blockDepth file line f_buf s =
     TRACER_GUARD_ENTER s (\<lambda>s.
       if \<not> g_trace_file s then TRACER_GUARD_EXIT s
       else
         let f = json_safe_path file;
             ext = [(''blockDepth'', JInt blockDepth), (''file'', JStr f),
                    (''line'', JInt line)];
             s = write_json_event ''block_enter'' nullptr (g_current_function s)
                   (g_depth s) (Some ext) s
         in destroy_string f f_buf (TRACER_GUARD_EXIT s))"

definition trace_block_exit_loc ::
  "int \<Rightarrow> string \<Rightarrow> int \<Rightarrow> address \<Rightarrow> tracer_state \<Rightarrow> tracer_state" where
  "trace_block_exit_loc blockDepth file line f_buf s =
     TRACER_GUARD_ENTER s (\<lambda>s.
       if \<not> g_trace_file s then TRACER_GUARD_EXIT s
       else
         let f = json_safe_path file;
             ext = [(''blockDepth'', JInt blockDepth), (''file'', JStr f),
                    (''line'', JInt line)];
             s = write_json_event ''block_exit'' nullptr (g_current_function s)
                   (g_depth s) (Some ext) s
         in destroy_string f f_buf (TRACER_GUARD_EXIT s))"

definition trace_var_int_loc ::
  "string \<Rightarrow> int \<Rightarrow> string \<Rightarrow> int \<Rightarrow> address \<Rightarrow> tracer_state \<Rightarrow> tracer_state" where
  "trace_var_int_loc name val file line f_buf s =
     TRACER_GUARD_ENTER s (\<lambda>s.
       if \<not> g_trace_file s then TRACER_GUARD_EXIT s
       else
         let f = json_safe_path file;
             ext = [(''name'', JStr name), (''value'', JInt val), (''type'', JStr ''int''),
                    (''file'', JStr f), (''line'', JInt line)];
             s = write_json_event ''var'' nullptr name (g_depth s) (Some ext) s
         in destroy_string f f_buf (TRACER_GUARD_EXIT s))"

definition trace_var_long_loc ::
  "string \<Rightarrow> int \<Rightarrow> string \<Rightarrow> int \<Rightarrow> address \<Rightarrow> tracer_state \<Rightarrow> tracer_state" where
  "trace_var_long_loc name val file line f_buf s =
     TRACER_GUARD_ENTER s (\<lambda>s.
       if \<not> g_trace_file s then TRACER_GUARD_EXIT s
       else
         let f = json_safe_path file;
             ext = [(''name'', JStr name), (''value'', JInt val), (''type'', JStr ''long''),
                    (''file'', JStr f), (''line'', JInt line)];
             s = write_json_event ''var'' nullptr name (g_depth s) (Some ext) s
         in destroy_string f f_buf (TRACER_GUARD_EXIT s))"

definition trace_var_double_loc ::
  "string \<Rightarrow> c_double \<Rightarrow> string \<Rightarrow> int \<Rightarrow> address \<Rightarrow> tracer_state \<Rightarrow> tracer_state" where
  "trace_var_double_loc name val file line f_buf s =
     TRACER_GUARD_ENTER s (\<lambda>s.
       if \<not> g_trace_file s then TRACER_GUARD_EXIT s
       else
         let f = json_safe_path file;
             ext = [(''name'', JStr name), (''value'', JDouble val),
                    (''type'', JStr ''double''), (''file'', JStr f), (''line'', JInt line)];
             s = write_json_event ''var'' nullptr name (g_depth s) (Some ext) s
         in destroy_string f f_buf (TRACER_GUARD_EXIT s))"

definition trace_var_ptr_loc ::
  "string \<Rightarrow> address \<Rightarrow> string \<Rightarrow> int \<Rightarrow> address \<Rightarrow> tracer_state \<Rightarrow> tracer_state" where
  "trace_var_ptr_loc name val file line f_buf s =
     TRACER_GUARD_ENTER s (\<lambda>s.
       if \<not> g_trace_file s then TRACER_GUARD_EXIT s
       else
         let f = json_safe_path file;
             ext = [(''name'', JStr name), (''value'', JPtr val),
                    (''type'', JStr ''pointer''), (''file'', JStr f), (''line'', JInt line)];
             s = write_json_event ''var'' nullptr name (g_depth s) (Some ext) s
         in destroy_string f f_buf (TRACER_GUARD_EXIT s))"

text \<open>
  \<^verbatim>\<open>trace_var_str_loc\<close> has no guard macro in the source: it tests the sink handle
  and records. The in-tracer flag is therefore not set while \<^verbatim>\<open>json_safe_path\<close>
  copies the path, and a copy that needs a heap buffer of \<open>length file + 1\<close> bytes
  goes through the \<^verbatim>\<open>operator new\<close> hook before the record is written, as its
  release goes through the \<^verbatim>\<open>operator delete\<close> hook after. The escaping loop
  reads at most 250 characters of the value and writes into an array of 256 bytes; the
  model keeps the whole escaped text, which is what the handler writes as long as the
  text fits the array (the source has no defined behaviour beyond that).
\<close>

primrec escape_chars :: "string \<Rightarrow> string" where
  "escape_chars [] = []"
| "escape_chars (c # cs) =
     (if c = CHR 0x22 \<or> c = CHR 0x5C then [CHR 0x5C, c] else [c]) @ escape_chars cs"

definition trace_var_str_loc ::
  "string \<Rightarrow> string \<Rightarrow> string \<Rightarrow> int \<Rightarrow> address \<Rightarrow> tracer_state \<Rightarrow> tracer_state" where
  "trace_var_str_loc name val file line f_buf s =
     (if \<not> g_trace_file s then s
      else
        let s = (if on_heap file then operator_new (length file + 1) f_buf s else s);
            f = json_safe_path file;
            escaped = escape_chars (take 250 val);
            ext = [(''name'', JStr name), (''value'', JStr escaped),
                   (''type'', JStr ''string''), (''file'', JStr f), (''line'', JInt line)];
            s = write_json_event ''var'' nullptr name (g_depth s) (Some ext) s
        in destroy_string f f_buf s)"

definition trace_var_int :: "string \<Rightarrow> int \<Rightarrow> tracer_state \<Rightarrow> tracer_state" where
  "trace_var_int name val s = trace_var_int_loc name val ''unknown'' 0 nullptr s"

definition trace_var_long :: "string \<Rightarrow> int \<Rightarrow> tracer_state \<Rightarrow> tracer_state" where
  "trace_var_long name val s = trace_var_long_loc name val ''unknown'' 0 nullptr s"

definition trace_var_double :: "string \<Rightarrow> c_double \<Rightarrow> tracer_state \<Rightarrow> tracer_state" where
  "trace_var_double name val s = trace_var_double_loc name val ''unknown'' 0 nullptr s"

definition trace_var_ptr :: "string \<Rightarrow> address \<Rightarrow> tracer_state \<Rightarrow> tracer_state" where
  "trace_var_ptr name val s = trace_var_ptr_loc name val ''unknown'' 0 nullptr s"

definition trace_var_str :: "string \<Rightarrow> string \<Rightarrow> tracer_state \<Rightarrow> tracer_state" where
  "trace_var_str name val s = trace_var_str_loc name val ''unknown'' 0 nullptr s"

subsection \<open>Function enter and exit\<close>

text \<open>
  \<open>Dl_info\<close> is what \<^verbatim>\<open>dladdr\<close> filled in: \<open>sname_demangled\<close> is
  \<^verbatim>\<open>demangle(dlinfo.dli_sname)\<close> (\<open>None\<close> for a null \<^verbatim>\<open>dli_sname\<close>) and
  \<open>dli_fname\<close> the path of the object the symbol lives in. The handlers take a
  \<open>Dl_info option\<close>: \<open>None\<close> when \<^verbatim>\<open>dladdr\<close> returned 0. \<open>strstr hay needle\<close>
  says whether \<^verbatim>\<open>strstr(hay, needle)\<close> is non-null.
\<close>

record Dl_info =
  sname_demangled :: "string option"
  dli_fname :: "string option"

fun starts_with :: "string \<Rightarrow> string \<Rightarrow> bool" where
  "starts_with [] hay = True"
| "starts_with (n # ns) [] = False"
| "starts_with (n # ns) (h # hs) = (n = h \<and> starts_with ns hs)"

fun strstr :: "string \<Rightarrow> string \<Rightarrow> bool" where
  "strstr [] needle = starts_with needle []"
| "strstr (h # hs) needle = (starts_with needle (h # hs) \<or> strstr hs needle)"

text \<open>
  The name computed by \<^verbatim>\<open>__cyg_profile_func_enter\<close> between the depth check and the
  push: \<open>None\<close> stands for the early return taken for a static-initialisation symbol.
  The handler has two locals that own a string: \<^verbatim>\<open>fn\<close>, whose buffer was sized by
  \<^verbatim>\<open>normalize_function_name\<close> for the name before the line ends were removed, and
  \<^verbatim>\<open>frame\<close>, whose \<open>functionName\<close> is a copy of \<^verbatim>\<open>fn\<close>. The exit handler has
  none.
\<close>

definition enter_func_name :: "Dl_info option \<Rightarrow> string option" where
  "enter_func_name dl =
     (case dl of
        None \<Rightarrow> Some ''main''
      | Some dlinfo \<Rightarrow>
          (case sname_demangled dlinfo of
             None \<Rightarrow> Some ''main''
           | Some nm \<Rightarrow>
               if strstr nm ''GLOBAL__sub'' \<or>
                  strstr nm ''_static_initialization_and_destruction''
               then None
               else
                 (case dli_fname dlinfo of
                    None \<Rightarrow> Some nm
                  | Some fnm \<Rightarrow>
                      if strstr fnm ''/usr/'' \<or> strstr fnm ''/lib/'' \<or>
                         strstr fnm ''libc'' \<or> strstr fnm ''libstdc++''
                      then Some ''user_function''
                      else Some nm)))"

definition cyg_profile_func_enter ::
  "address \<Rightarrow> address \<Rightarrow> Dl_info option \<Rightarrow> address \<Rightarrow> address \<Rightarrow> tracer_state \<Rightarrow> tracer_state" where
  "cyg_profile_func_enter func caller dl fn_buf frame_buf s =
     TRACER_GUARD_ENTER s (\<lambda>s.
       let s = s\<lparr>g_depth := g_depth s + 1\<rparr> in
       if g_depth s \<ge> 2048 then TRACER_GUARD_EXIT (s\<lparr>g_depth := g_depth s - 1\<rparr>)
       else
         (case enter_func_name dl of
            None \<Rightarrow> TRACER_GUARD_EXIT (s\<lparr>g_depth := g_depth s - 1\<rparr>)
          | Some func_name \<Rightarrow>
              let fn = normalize_function_name func_name;
                  s = s\<lparr>g_tracked_functions := insert fn (g_tracked_functions s)\<rparr>;
                  s = s\<lparr>g_current_function := fn\<rparr>;
                  frame = \<lparr> functionName = fn, pointerAliases = Map.empty,
                            activeLoops = [], loopIterations = Map.empty \<rparr>;
                  s = s\<lparr>g_call_stack := frame # g_call_stack s\<rparr>;
                  s = write_json_event ''func_enter'' func func_name (g_depth s)
                        (Some [(''caller'', JPtr caller)]) s;
                  s = TRACER_GUARD_EXIT s;
                  s = destroy_string fn frame_buf s
              in destroy_string func_name fn_buf s))"

text \<open>
  The exit handler tests fewer path fragments for the placeholder name than the enter
  handler does.
\<close>

definition exit_func_name :: "Dl_info option \<Rightarrow> string option" where
  "exit_func_name dl =
     (case dl of
        None \<Rightarrow> Some ''main''
      | Some dlinfo \<Rightarrow>
          (case sname_demangled dlinfo of
             None \<Rightarrow> Some ''main''
           | Some nm \<Rightarrow>
               if strstr nm ''GLOBAL__sub'' \<or>
                  strstr nm ''_static_initialization_and_destruction''
               then None
               else
                 (case dli_fname dlinfo of
                    None \<Rightarrow> Some nm
                  | Some fnm \<Rightarrow>
                      if strstr fnm ''/usr/'' \<or> strstr fnm ''/lib/''
                      then Some ''user_function''
                      else Some nm)))"

text \<open>
  The \<^verbatim>\<open>while\<close> loop of the exit handler takes the open loop ids from the back of
  \<open>activeLoops\<close> and writes a \<^verbatim>\<open>loop_end\<close> record for each; it is run here over
  the reversed list. The frame it empties is popped right after the loop.
\<close>

primrec close_active_loops :: "int list \<Rightarrow> tracer_state \<Rightarrow> tracer_state" where
  "close_active_loops [] s = s"
| "close_active_loops (loopId # rest) s =
     close_active_loops rest
       (write_json_event ''loop_end'' nullptr (g_current_function s) (g_depth s)
          (Some [(''loopId'', JInt loopId), (''file'', JStr ''unknown''), (''line'', JInt 0)]) s)"

definition cyg_profile_func_exit ::
  "address \<Rightarrow> address \<Rightarrow> Dl_info option \<Rightarrow> tracer_state \<Rightarrow> tracer_state" where
  "cyg_profile_func_exit func caller dl s =
     TRACER_GUARD_ENTER s (\<lambda>s.
       if g_depth s \<le> 0 then TRACER_GUARD_EXIT s
       else
         (case exit_func_name dl of
            None \<Rightarrow> TRACER_GUARD_EXIT s
          | Some func_name \<Rightarrow>
              let s = (case g_call_stack s of
                         fr # frs \<Rightarrow>
                           (close_active_loops (rev (activeLoops fr)) s)\<lparr>g_call_stack := frs\<rparr>
                       | [] \<Rightarrow> s);
                  s = (case g_call_stack s of
                         fr # frs \<Rightarrow> s\<lparr>g_current_function := functionName fr\<rparr>
                       | [] \<Rightarrow> s\<lparr>g_current_function := ''main''\<rparr>);
                  s = write_json_event ''func_exit'' func func_name (g_depth s) None s;
                  s = s\<lparr>g_depth := g_depth s - 1\<rparr>
              in TRACER_GUARD_EXIT s))"

subsection \<open>Lifecycle\<close>

text \<open>
  \<open>fopen_ok\<close> says whether \<^verbatim>\<open>fopen(trace_path, "w")\<close> returned a stream. A
  successful open truncates the file. On failure the handle is the null pointer that
  \<^verbatim>\<open>fopen\<close> returned.
\<close>

definition init_tracer :: "bool \<Rightarrow> tracer_state \<Rightarrow> tracer_state" where
  "init_tracer fopen_ok s =
     (if g_depth s \<ge> 2048 then s
      else
        let s = (if fopen_ok then s\<lparr>g_trace_file := True, sink_open := True, sink_out := []\<rparr>
                 else s\<lparr>g_trace_file := False\<rparr>)
        in if g_trace_file s
           then let s = s\<lparr>g_tracer_disabled := False\<rparr>
                in s\<lparr>sink_out := sink_out s @ [Header]\<rparr>
           else s\<lparr>g_tracer_disabled := True\<rparr>)"

text \<open>
  \<^verbatim>\<open>finish_tracer\<close> is declared a destructor function. At the exit of the process
  those run after the handlers registered with \<^verbatim>\<open>atexit\<close>, among which are the
  destructors of the function-local statics that have been constructed; the same
  function can also be called while they are alive. \<open>statics_destroyed\<close> says which.
  The only static that \<^verbatim>\<open>finish_tracer\<close> uses is the set of tracked functions,
  between the opening of the trailer and its total. The set is constructed by the first
  call of its accessor: that is the first insertion by the enter handler, so the set has
  been constructed before exactly when it is not empty, and otherwise
  \<^verbatim>\<open>finish_tracer\<close> itself constructs it, empty. Walking a set that has been
  destroyed has no defined behaviour: the result is then \<open>Undefined\<close>, with the state
  reached at that point.
\<close>

datatype stop_result = Returned tracer_state | Undefined tracer_state

definition finish_disable :: "tracer_state \<Rightarrow> tracer_state" where
  "finish_disable s = s\<lparr>g_tracer_disabled := True\<rparr>"

definition finish_open_trailer :: "tracer_state \<Rightarrow> tracer_state" where
  "finish_open_trailer s = s\<lparr>sink_out := sink_out s @ [TrailerOpen]\<rparr>"

definition finish_write_names :: "tracer_state \<Rightarrow> tracer_state" where
  "finish_write_names s =
     s\<lparr>sink_out := sink_out s @ [TrailerNames (g_tracked_functions s),
                                   TrailerTotal (g_event_counter s)]\<rparr>"

definition finish_close :: "tracer_state \<Rightarrow> tracer_state" where
  "finish_close s = (s\<lparr>sink_open := False\<rparr>)\<lparr>g_trace_file := False\<rparr>"

definition finish_tracer :: "bool \<Rightarrow> tracer_state \<Rightarrow> stop_result" where
  "finish_tracer statics_destroyed s =
     (if g_tracer_disabled s then Returned s
      else if g_inside_tracer s then Returned s
      else
        let s = s\<lparr>g_inside_tracer := True\<rparr> in
        if g_depth s \<ge> 2048 then Returned (TRACER_GUARD_EXIT s)
        else if \<not> g_trace_file s then Returned (TRACER_GUARD_EXIT s)
        else
          let s = finish_disable s;
              s = finish_open_trailer s
          in if statics_destroyed \<and> g_tracked_functions s \<noteq> {} then Undefined s
             else Returned (TRACER_GUARD_EXIT (finish_close (finish_write_names s))))"

subsection \<open>Notifications and runs\<close>

text \<open>
  One constructor per entry point that the instrumented program can call, with the
  arguments of its handler, and the dispatch to it. A run feeds a list of notifications
  to the engine in order,
  on one thread.
\<close>

datatype (plugins only: code) notification =
    OutputFlush string int
  | ConditionEval int string int string int address
  | BranchTaken int string string int address
  | ArrayCreate string string address int int int bool string int address address address
  | ArrayInitString string string string int address
  | ArrayInit string "nat \<Rightarrow> int" int string int address
  | ArrayIndexAssign string int int int int string int address address
  | PointerAlias string address bool string int address address address
  | PointerDerefWrite string int string int address address
  | Declare string string address string int address
  | Assign string int string int address
  | PointerHeapInit string address string int address
  | ControlFlow string string int address
  | LoopStart int string string int address
  | LoopBodyStart int string int address
  | LoopIterationEnd int string int address
  | LoopEnd int string int address
  | LoopCondition int int string int address
  | Return int "string option" "string option" string int address
  | BlockEnter int string int address
  | BlockExit int string int address
  | VarInt string int string int address
  | VarLong string int string int address
  | VarDouble string c_double string int address
  | VarPtr string address string int address
  | VarStr string string string int address
  | FuncEnter address address "Dl_info option" address address
  | FuncExit address address "Dl_info option"
  | New nat address
  | NewArray nat address
  | Delete address
  | DeleteArray address
  | Malloc nat address
  | Free address

primrec handle :: "notification \<Rightarrow> tracer_state \<Rightarrow> tracer_state" where
  "handle (OutputFlush file line) s = trace_output_flush_loc file line s"
| "handle (ConditionEval c e r file line u) s = trace_condition_eval_loc c e r file line u s"
| "handle (BranchTaken c b file line u) s = trace_branch_taken_loc c b file line u s"
| "handle (ArrayCreate n b a d1 d2 d3 st file line u1 u2 u3) s =
     trace_array_create_loc n b a d1 d2 d3 st file line u1 u2 u3 s"
| "handle (ArrayInitString n str file line u) s =
     trace_array_init_string_loc n str file line u s"
| "handle (ArrayInit n vals cnt file line u) s = trace_array_init_loc n vals cnt file line u s"
| "handle (ArrayIndexAssign n i1 i2 i3 v file line u1 u2) s =
     trace_array_index_assign_loc n i1 i2 i3 v file line u1 u2 s"
| "handle (PointerAlias n a d file line u1 u2 u3) s =
     trace_pointer_alias_loc n a d file line u1 u2 u3 s"
| "handle (PointerDerefWrite p v file line u1 u2) s =
     trace_pointer_deref_write_loc p v file line u1 u2 s"
| "handle (Declare n t a file line u) s = trace_declare_loc n t a file line u s"
| "handle (Assign n v file line u) s = trace_assign_loc n v file line u s"
| "handle (PointerHeapInit p a file line u) s = trace_pointer_heap_init_loc p a file line u s"
| "handle (ControlFlow c file line u) s = trace_control_flow_loc c file line u s"
| "handle (LoopStart l t file line u) s = trace_loop_start_loc l t file line u s"
| "handle (LoopBodyStart l file line u) s = trace_loop_body_start_loc l file line u s"
| "handle (LoopIterationEnd l file line u) s = trace_loop_iteration_end_loc l file line u s"
| "handle (LoopEnd l file line u) s = trace_loop_end_loc l file line u s"
| "handle (LoopCondition l r file line u) s = trace_loop_condition_loc l r file line u s"
| "handle (Return v rt d file line u) s = trace_return_loc v rt d file line u s"
| "handle (BlockEnter b file line u) s = trace_block_enter_loc b file line u s"
| "handle (BlockExit b file line u) s = trace_block_exit_loc b file line u s"
| "handle (VarInt n v file line u) s = trace_var_int_loc n v file line u s"
| "handle (VarLong n v file line u) s = trace_var_long_loc n v file line u s"
| "handle (VarDouble n v file line u) s = trace_var_double_loc n v file line u s"
| "handle (VarPtr n v file line u) s = trace_var_ptr_loc n v file line u s"
| "handle (VarStr n v file line u) s = trace_var_str_loc n v file line u s"
| "handle (FuncEnter f c dl u1 u2) s = cyg_profile_func_enter f c dl u1 u2 s"
| "handle (FuncExit f c dl) s = cyg_profile_func_exit f c dl s"
| "handle (New sz p) s = operator_new sz p s"
| "handle (NewArray sz p) s = operator_new_array sz p s"
| "handle (Delete p) s = operator_delete p s"
| "handle (DeleteArray p) s = operator_delete_array p s"
| "handle (Malloc sz p) s = malloc_hook sz p s"
| "handle (Free p) s = free_hook p s"

primrec run :: "notification list \<Rightarrow> tracer_state \<Rightarrow> tracer_state" where
  "run [] s = s"
| "run (n # ns) s = run ns (handle n s)"

subsection \<open>Observations on a state\<close>

text \<open>
  \<open>recorded\<close> is the sequence of event records in the output file. An engine is
  \<open>running\<close> when the sink handle is set, no flag denies entry and the depth is below
  the ceiling that makes the recorder drop records.
\<close>

definition recorded :: "tracer_state \<Rightarrow> event list" where
  "recorded s = concat (map (\<lambda>it. case it of Record e \<Rightarrow> [e] | _ \<Rightarrow> []) (sink_out s))"

definition running :: "tracer_state \<Rightarrow> bool" where
  "running s =
     (g_trace_file s \<and> \<not> g_tracer_disabled s \<and> \<not> g_inside_tracer s \<and> g_depth s < 2048)"

text \<open>
  The recorder and the loops built on it change the output, the event counter and the
  element values only; \<open>outside_log\<close> blanks these three, so that two states agree on
  it exactly when they agree on every other field.
\<close>

definition outside_log :: "tracer_state \<Rightarrow> tracer_state" where
  "outside_log s =
     s\<lparr>sink_out := [], g_event_counter := 0, g_array_element_values := Map.empty\<rparr>"

text \<open>
  The state of a process in which the notifications \<open>pre\<close> arrived before
  \<^verbatim>\<open>init_tracer\<close> ran (constructors that ran earlier), \<^verbatim>\<open>fopen\<close> succeeded or
  not, and the notifications \<open>ns\<close> arrived afterwards.
\<close>

definition process_run :: "bool \<Rightarrow> notification list \<Rightarrow> notification list \<Rightarrow> tracer_state" where
  "process_run fopen_ok pre ns = run ns (init_tracer fopen_ok (run pre tracer_initial))"

text \<open>
  Two states of a started engine in which the guard denies entry: the thread is already
  inside a handler, or \<^verbatim>\<open>finish_tracer\<close> has set the disabled flag and has not yet
  closed the sink.
\<close>

definition reentered_state :: tracer_state where
  "reentered_state = (init_tracer True tracer_initial)\<lparr>g_inside_tracer := True\<rparr>"

definition closing_state :: tracer_state where
  "closing_state = finish_disable (init_tracer True tracer_initial)"

text \<open>
  The ids of the recorded events are \<open>0, 1, 2, \<dots>\<close> in 64-bit arithmetic, and the
  counter is the number of records written.
\<close>

definition ids_in_order :: "tracer_state \<Rightarrow> bool" where
  "ids_in_order s =
     (map ev_id (recorded s) = map of_nat [0..<length (recorded s)]
      \<and> g_event_counter s = of_nat (length (recorded s)))"

text \<open>
  A started engine in which the name \<open>p\<close> is aliased three times: at top level
  (address 100, process-wide registry), in the frame of \<open>g\<close> (address 300) and in
  the frame of \<open>f\<close>, called from \<open>g\<close> (address 200). All the strings of these
  calls are short, so no local owns a heap buffer and the buffer arguments are null.
\<close>

definition sym_g :: "Dl_info option" where
  "sym_g = Some \<lparr> sname_demangled = Some ''g'', dli_fname = None \<rparr>"

definition sym_f :: "Dl_info option" where
  "sym_f = Some \<lparr> sname_demangled = Some ''f'', dli_fname = None \<rparr>"

definition shadow_state :: tracer_state where
  "shadow_state =
     process_run True []
       [PointerAlias ''p'' 100 False ''a.c'' 1 nullptr nullptr nullptr,
        FuncEnter 10 1 sym_g nullptr nullptr,
        PointerAlias ''p'' 300 False ''a.c'' 2 nullptr nullptr nullptr,
        FuncEnter 11 10 sym_f nullptr nullptr,
        PointerAlias ''p'' 200 False ''a.c'' 3 nullptr nullptr nullptr]"

text \<open>A started engine that has entered the function \<open>g\<close> and nothing else.\<close>

definition entered_state :: tracer_state where
  "entered_state = process_run True [] [FuncEnter 10 1 sym_g nullptr nullptr]"

text \<open>
  The engine at the recursion ceiling: 2047 nested activations of \<open>g\<close> on a started
  engine.
\<close>

definition ceiling_state :: tracer_state where
  "ceiling_state =
     process_run True [] (replicate 2047 (FuncEnter 10 1 sym_g nullptr nullptr))"

text \<open>
  The records that the exit handler writes for the loops still open in the frame it
  pops, given the current function name, the depth, the next event id and the loop
  ids in the order in which they are closed.
\<close>

primrec synthetic_loop_ends :: "string \<Rightarrow> int \<Rightarrow> 64 word \<Rightarrow> int list \<Rightarrow> event list" where
  "synthetic_loop_ends fn d c [] = []"
| "synthetic_loop_ends fn d c (loopId # rest) =
     \<lparr> ev_id = c, ev_type = ''loop_end'', ev_addr = nullptr, ev_func = fn, ev_depth = d,
       ev_extra = Some [(''loopId'', JInt loopId), (''file'', JStr ''unknown''),
                        (''line'', JInt 0)] \<rparr>
     # synthetic_loop_ends fn d (c + 1) rest"

text \<open>
  Reading the log back. \<open>replay\<close> walks the records with a stack that holds, for every
  activation that the log has entered and not yet left, the loop ids that a
  \<^verbatim>\<open>loop_start\<close> record of that activation has opened and no later \<^verbatim>\<open>loop_end\<close>
  record of it has closed. A \<^verbatim>\<open>func_enter\<close> record opens an activation, a
  \<^verbatim>\<open>func_exit\<close> record leaves the innermost one and is accepted only when no loop
  id is pending there; the result is \<open>None\<close> as soon as one is not accepted. The
  stack \<open>st\<close> given at the start stands for the activations entered before the first
  record.
\<close>

definition event_loop_id :: "event \<Rightarrow> int option" where
  "event_loop_id e =
     (case ev_extra e of
        None \<Rightarrow> None
      | Some ext \<Rightarrow> (case map_of ext ''loopId'' of Some (JInt l) \<Rightarrow> Some l | _ \<Rightarrow> None))"

fun replay_step :: "event \<Rightarrow> int list list option \<Rightarrow> int list list option" where
  "replay_step e None = None"
| "replay_step e (Some st) =
     (if ev_type e = ''func_enter'' then Some ([] # st)
      else if ev_type e = ''func_exit'' then
        (case st of
           [] \<Rightarrow> Some []
         | pending # outer \<Rightarrow> if pending = [] then Some outer else None)
      else if ev_type e = ''loop_start'' then
        (case (st, event_loop_id e) of
           (pending # outer, Some l) \<Rightarrow> Some ((pending @ [l]) # outer)
         | _ \<Rightarrow> Some st)
      else if ev_type e = ''loop_end'' then
        (case (st, event_loop_id e) of
           (pending # outer, Some l) \<Rightarrow> Some (remove1 l pending # outer)
         | _ \<Rightarrow> Some st)
      else Some st)"

definition replay :: "event list \<Rightarrow> int list list \<Rightarrow> int list list option" where
  "replay es st = fold replay_step es (Some st)"

text \<open>A started engine inside \<open>g\<close> with the loops 1 and 2 open, 2 innermost.\<close>

definition open_loops_state :: tracer_state where
  "open_loops_state =
     process_run True []
       [FuncEnter 10 1 sym_g nullptr nullptr,
        LoopStart 1 ''for'' ''a.c'' 2 nullptr,
        LoopStart 2 ''while'' ''a.c'' 3 nullptr]"

section \<open>Properties\<close>


subsection \<open>What the recorder and its loops leave alone\<close>

lemma outside_log_eqD:
  assumes "outside_log s = outside_log t"
  shows "g_trace_file s = g_trace_file t" "sink_open s = sink_open t"
    "g_depth s = g_depth t" "g_inside_tracer s = g_inside_tracer t"
    "g_tracer_disabled s = g_tracer_disabled t" "g_variable_values s = g_variable_values t"
    "g_array_registry s = g_array_registry t" "g_address_to_name s = g_address_to_name t"
    "g_tracked_functions s = g_tracked_functions t" "g_current_function s = g_current_function t"
    "g_pointer_registry s = g_pointer_registry t" "g_call_stack s = g_call_stack t"
  using assms by (cases s; cases t; simp add: outside_log_def)+

lemma outside_log_update [simp]:
  "outside_log (s\<lparr>g_array_element_values := m\<rparr>) = outside_log s"
  "outside_log (s\<lparr>sink_out := out\<rparr>) = outside_log s"
  "outside_log (s\<lparr>g_event_counter := c\<rparr>) = outside_log s"
  by (simp_all add: outside_log_def)

lemma outside_log_write [simp]:
  "outside_log (write_json_event ty a f d x s) = outside_log s"
  by (simp add: write_json_event_def)

lemma outside_log_array_init_loop:
  "outside_log (array_init_loop nm vals f line idxs s) = outside_log s"
  by (induction idxs arbitrary: s) (simp_all add: Let_def)

lemma outside_log_array_init_string_loop:
  "outside_log (array_init_string_loop nm f line ics s) = outside_log s"
  by (induction ics arbitrary: s) (simp_all add: Let_def)

lemma outside_log_close_active_loops:
  "outside_log (close_active_loops ls s) = outside_log s"
  by (induction ls arbitrary: s) simp_all

lemma outside_log_heap_free_hook:
  "outside_log (heap_free_hook nm ptr s) = outside_log s"
  by (cases s) (simp add: heap_free_hook_def TRACER_GUARD_EXIT_def outside_log_def Let_def
        write_json_event_def)

lemma outside_log_heap_alloc_hook:
  "outside_log (heap_alloc_hook nm sz ptr s) = outside_log s"
  by (cases s) (simp add: heap_alloc_hook_def TRACER_GUARD_EXIT_def outside_log_def Let_def
        write_json_event_def)

lemma outside_log_destroy_string:
  "outside_log (destroy_string str buf s) = outside_log s"
  by (simp add: destroy_string_def operator_delete_def outside_log_heap_free_hook)

lemma outside_log_operator_new:
  "outside_log (operator_new sz ptr s) = outside_log s"
  by (simp add: operator_new_def outside_log_heap_alloc_hook)

lemmas write_json_event_fields [simp] = outside_log_eqD [OF outside_log_write]
lemmas destroy_string_fields [simp] = outside_log_eqD [OF outside_log_destroy_string]
lemmas operator_new_fields [simp] = outside_log_eqD [OF outside_log_operator_new]
lemmas array_init_loop_fields [simp] = outside_log_eqD [OF outside_log_array_init_loop]
lemmas array_init_string_loop_fields [simp] =
  outside_log_eqD [OF outside_log_array_init_string_loop]
lemmas close_active_loops_fields [simp] = outside_log_eqD [OF outside_log_close_active_loops]

lemmas guard_defs = TRACER_GUARD_ENTER_def TRACER_GUARD_EXIT_def

lemmas handler_defs =
  trace_output_flush_loc_def trace_condition_eval_loc_def trace_branch_taken_loc_def
  trace_array_create_loc_def trace_array_init_string_loc_def trace_array_init_loc_def
  trace_array_index_assign_loc_def trace_pointer_alias_loc_def
  trace_pointer_deref_write_loc_def trace_declare_loc_def trace_assign_loc_def
  trace_pointer_heap_init_loc_def trace_control_flow_loc_def trace_loop_start_loc_def
  trace_loop_body_start_loc_def trace_loop_iteration_end_loc_def trace_loop_end_loc_def
  trace_loop_condition_loc_def trace_return_loc_def trace_block_enter_loc_def
  trace_block_exit_loc_def trace_var_int_loc_def trace_var_long_loc_def
  trace_var_double_loc_def trace_var_ptr_loc_def trace_var_str_loc_def
  cyg_profile_func_enter_def cyg_profile_func_exit_def
  operator_new_def operator_new_array_def operator_delete_def operator_delete_array_def
  malloc_hook_def free_hook_def heap_alloc_hook_def heap_free_hook_def

subsection \<open>Facts that hold for every handler\<close>

lemma close_active_loops_no_sink:
  "\<not> g_trace_file s \<Longrightarrow> close_active_loops ls s = s"
  by (induction ls arbitrary: s) (simp_all add: write_json_event_def)

lemma destroy_string_no_sink:
  "\<not> g_trace_file s \<Longrightarrow> destroy_string str buf s = s"
  by (cases s)
    (simp add: destroy_string_def operator_delete_def heap_free_hook_def
      TRACER_GUARD_EXIT_def Let_def)

lemma handle_shut_down:
  assumes "g_tracer_disabled s" and "\<not> g_trace_file s"
  shows "handle n s = s"
  using assms by (cases n) (simp_all add: handler_defs guard_defs)

lemma handle_denied:
  assumes "g_tracer_disabled s \<or> g_inside_tracer s"
    and "case n of VarStr a b c d e \<Rightarrow> False | _ \<Rightarrow> True"
  shows "handle n s = s"
  using assms by (cases n) (auto simp add: handler_defs guard_defs)

lemma handle_g_trace_file: "g_trace_file (handle n s) = g_trace_file s"
  by (cases n; simp add: handler_defs guard_defs Let_def split: list.split option.split)

lemma handle_sink_open: "sink_open (handle n s) = sink_open s"
  by (cases n; simp add: handler_defs guard_defs Let_def split: list.split option.split)

lemma handle_g_tracer_disabled: "g_tracer_disabled (handle n s) = g_tracer_disabled s"
  by (cases n; simp add: handler_defs guard_defs Let_def split: list.split option.split)

lemma handle_g_inside_tracer: "g_inside_tracer (handle n s) = g_inside_tracer s"
  by (cases n; simp add: handler_defs guard_defs Let_def split: list.split option.split)

lemma handle_depth_bound:
  assumes "g_depth s < 2048"
  shows "g_depth (handle n s) < 2048"
  using assms
  by (cases n; simp add: handler_defs guard_defs Let_def split: list.split option.split)

lemma handle_no_sink_out:
  assumes "\<not> g_trace_file s"
  shows "sink_out (handle n s) = sink_out s"
  using assms
  by (cases n; simp add: handler_defs guard_defs Let_def write_json_event_def
        close_active_loops_no_sink destroy_string_no_sink split: list.split option.split)

lemma handle_no_sink_counter:
  assumes "\<not> g_trace_file s"
  shows "g_event_counter (handle n s) = g_event_counter s"
  using assms
  by (cases n; simp add: handler_defs guard_defs Let_def write_json_event_def
        close_active_loops_no_sink destroy_string_no_sink split: list.split option.split)

lemma handle_depth_nonneg:
  assumes "0 \<le> g_depth s"
  shows "0 \<le> g_depth (handle n s)"
  using assms
  by (cases n; simp add: handler_defs guard_defs Let_def split: list.split option.split)

lemma wrappers_are_handlers:
  "trace_var_int nm i s = handle (VarInt nm i ''unknown'' 0 nullptr) s"
  "trace_var_long nm i s = handle (VarLong nm i ''unknown'' 0 nullptr) s"
  "trace_var_double nm d s = handle (VarDouble nm d ''unknown'' 0 nullptr) s"
  "trace_var_ptr nm a s = handle (VarPtr nm a ''unknown'' 0 nullptr) s"
  "trace_var_str nm str s = handle (VarStr nm str ''unknown'' 0 nullptr) s"
  by (simp_all add: trace_var_int_def trace_var_long_def trace_var_double_def
        trace_var_ptr_def trace_var_str_def)

lemma running_handle: "running s \<Longrightarrow> running (handle n s)"
  by (simp add: running_def handle_g_trace_file handle_g_tracer_disabled
        handle_g_inside_tracer handle_depth_bound)

lemma running_run: "running s \<Longrightarrow> running (run ns s)"
  by (induction ns arbitrary: s) (simp_all add: running_handle)

lemma run_shut_down:
  "g_tracer_disabled s \<Longrightarrow> \<not> g_trace_file s \<Longrightarrow> run ns s = s"
  by (induction ns) (simp_all add: handle_shut_down)

lemma run_append: "run (ns @ ms) s = run ms (run ns s)"
  by (induction ns arbitrary: s) simp_all

text \<open>Before \<^verbatim>\<open>init_tracer\<close>: the state that notifications arriving early can reach.\<close>

lemma run_before_init:
  assumes "\<not> g_trace_file s" and "\<not> g_inside_tracer s" and "g_depth s < 2048"
  shows "\<not> g_trace_file (run ns s) \<and> \<not> g_inside_tracer (run ns s) \<and> g_depth (run ns s) < 2048
         \<and> g_tracer_disabled (run ns s) = g_tracer_disabled s
         \<and> sink_open (run ns s) = sink_open s
         \<and> sink_out (run ns s) = sink_out s \<and> g_event_counter (run ns s) = g_event_counter s"
  using assms
proof (induction ns arbitrary: s)
  case Nil
  then show ?case by simp
next
  case (Cons n ns)
  have "\<not> g_trace_file (handle n s)" "\<not> g_inside_tracer (handle n s)"
    "g_depth (handle n s) < 2048"
    using Cons.prems by (simp_all add: handle_g_trace_file handle_g_inside_tracer handle_depth_bound)
  from Cons.IH [OF this] show ?case
    using Cons.prems
    by (simp add: handle_g_tracer_disabled handle_sink_open handle_no_sink_out
          handle_no_sink_counter)
qed


lemma running_started: "running (init_tracer True tracer_initial)"
  by (simp add: running_def init_tracer_def tracer_initial_def)

subsection \<open>Records written when a local is destroyed\<close>

lemma recorded_write:
  "recorded (write_json_event ty a f d x s)
   = (if g_trace_file s \<and> g_depth s < 2048
      then recorded s @ [\<lparr> ev_id = g_event_counter s, ev_type = ty, ev_addr = a,
                           ev_func = f, ev_depth = d, ev_extra = x \<rparr>]
      else recorded s)"
  by (simp add: write_json_event_def recorded_def)

lemma counter_write:
  "g_event_counter (write_json_event ty a f d x s)
   = (if g_trace_file s \<and> g_depth s < 2048 then g_event_counter s + 1 else g_event_counter s)"
  by (simp add: write_json_event_def)

lemma array_values_write [simp]:
  "g_array_element_values (write_json_event ty a f d x s) = g_array_element_values s"
  by (simp add: write_json_event_def)

lemma recorded_sink_out_append [simp]:
  "recorded (s\<lparr>sink_out := sink_out s @ [Record e]\<rparr>) = recorded s @ [e]"
  by (simp add: recorded_def)

lemma recorded_update [simp]:
  "recorded (g_trace_file_update f1 s) = recorded s"
  "recorded (sink_open_update f2 s) = recorded s"
  "recorded (g_depth_update f3 s) = recorded s"
  "recorded (g_event_counter_update f4 s) = recorded s"
  "recorded (g_inside_tracer_update f5 s) = recorded s"
  "recorded (g_tracer_disabled_update f6 s) = recorded s"
  "recorded (g_variable_values_update f7 s) = recorded s"
  "recorded (g_array_registry_update f8 s) = recorded s"
  "recorded (g_address_to_name_update f9 s) = recorded s"
  "recorded (g_array_element_values_update f10 s) = recorded s"
  "recorded (g_tracked_functions_update f11 s) = recorded s"
  "recorded (g_current_function_update f12 s) = recorded s"
  "recorded (g_pointer_registry_update f13 s) = recorded s"
  "recorded (g_call_stack_update f14 s) = recorded s"
  by (simp_all add: recorded_def)

lemma recorded_destroy_string:
  assumes "running s"
  shows "recorded (destroy_string str buf s)
         = recorded s @
           (if on_heap str \<and> buf \<noteq> nullptr
            then [\<lparr> ev_id = g_event_counter s, ev_type = ''heap_free'', ev_addr = buf,
                    ev_func = ''operator delete'', ev_depth = g_depth s, ev_extra = None \<rparr>]
            else [])"
    and "g_event_counter (destroy_string str buf s)
         = (if on_heap str \<and> buf \<noteq> nullptr then g_event_counter s + 1 else g_event_counter s)"
    and "g_array_element_values (destroy_string str buf s) = g_array_element_values s"
    and "running (destroy_string str buf s)"
  using assms
  by (simp_all add: running_def destroy_string_def operator_delete_def heap_free_hook_def
        TRACER_GUARD_EXIT_def Let_def recorded_write counter_write)

lemma destroy_string_short:
  "\<not> on_heap str \<Longrightarrow> destroy_string str buf s = s"
  by (simp add: destroy_string_def)

lemma on_heap_normalize:
  "\<not> on_heap nm \<Longrightarrow> \<not> on_heap (normalize_function_name nm)"
proof -
  have "length (normalize_function_name nm) \<le> length nm"
    unfolding normalize_function_name_def
    by (rule order_trans [OF length_filter_le length_filter_le])
  then show "\<not> on_heap nm \<Longrightarrow> \<not> on_heap (normalize_function_name nm)"
    by (simp add: on_heap_def)
qed

subsection \<open>The guard at the entry points\<close>

text \<open>
  Claim C1: every public entry point performs the guard check first, returns without any
  side effect when the disabled flag or the in-tracer flag is set, and clears the
  in-tracer flag on every exit path.

  \<open>handle_denied\<close> and \<open>handle_g_inside_tracer\<close> above show this for every entry
  point that uses the guard macro. \<^verbatim>\<open>trace_var_str_loc\<close> does not use it. The
  theorem evaluates it in two states where the guard denies entry, next to its sibling
  \<^verbatim>\<open>trace_var_int_loc\<close>: with the in-tracer flag set, and with the disabled flag set
  while the sink is still open. The sibling leaves the state as it is;
  \<^verbatim>\<open>trace_var_str_loc\<close> writes a record and moves the event counter. The path
  \<open>f.c\<close> is short, so no heap buffer is involved and the buffer argument is null.
\<close>

theorem trace_var_str_loc_skips_guard:
  "g_inside_tracer reentered_state
   \<and> trace_var_int_loc ''x'' 1 ''f.c'' 3 nullptr reentered_state = reentered_state
   \<and> recorded (trace_var_str_loc ''x'' ''v'' ''f.c'' 3 nullptr reentered_state)
       = [\<lparr> ev_id = 0, ev_type = ''var'', ev_addr = nullptr, ev_func = ''x'', ev_depth = 0,
            ev_extra = Some [(''name'', JStr ''x''), (''value'', JStr ''v''),
                             (''type'', JStr ''string''), (''file'', JStr ''f.c''),
                             (''line'', JInt 3)] \<rparr>]
   \<and> g_event_counter (trace_var_str_loc ''x'' ''v'' ''f.c'' 3 nullptr reentered_state) = 1
   \<and> g_tracer_disabled closing_state
   \<and> trace_var_int_loc ''x'' 1 ''f.c'' 3 nullptr closing_state = closing_state
   \<and> g_event_counter (trace_var_str_loc ''x'' ''v'' ''f.c'' 3 nullptr closing_state) = 1"
  by (simp add: reentered_state_def closing_state_def finish_disable_def init_tracer_def
        tracer_initial_def trace_var_int_loc_def trace_var_str_loc_def guard_defs
        write_json_event_def recorded_def json_safe_path_def destroy_string_def on_heap_def)

subsection \<open>Pointer registration\<close>

lemma pointer_heap_init_effect:
  assumes "running s"
  shows "g_pointer_registry (trace_pointer_heap_init_loc p a file line buf s) p
           = Some \<lparr> pointerName = p, aliasedAddress = a, isHeap = True, heapAddress = a \<rparr>"
    and "g_call_stack (trace_pointer_heap_init_loc p a file line buf s)
           = (case g_call_stack s of
                [] \<Rightarrow> []
              | fr # frs \<Rightarrow>
                  fr\<lparr>pointerAliases := (pointerAliases fr)(p \<mapsto>
                       \<lparr> pointerName = p, aliasedAddress = a, isHeap = True,
                         heapAddress = a \<rparr>)\<rparr> # frs)"
    and "recorded (trace_pointer_heap_init_loc p a file line buf s)
           = recorded s @
             (if on_heap p \<and> buf \<noteq> nullptr
              then [\<lparr> ev_id = g_event_counter s, ev_type = ''heap_free'', ev_addr = buf,
                      ev_func = ''operator delete'', ev_depth = g_depth s,
                      ev_extra = None \<rparr>]
              else [])"
    and "g_event_counter (trace_pointer_heap_init_loc p a file line buf s)
           = (if on_heap p \<and> buf \<noteq> nullptr then g_event_counter s + 1
              else g_event_counter s)"
  using assms
  by (simp_all add: running_def trace_pointer_heap_init_loc_def guard_defs Let_def
        recorded_destroy_string split: list.split)

text \<open>
  Claim C9: on a running engine the pointer-heap-init handler stores the
  \<open>PointerInfo\<close> with \<open>isHeap = True\<close> and both addresses equal to the heap address
  in the process-wide registry, stores it in the innermost frame as well when the call
  stack is not empty, and appends no event: the event counter is unchanged.

  \<open>pointer_heap_init_effect\<close> above gives the stores, and the handler calls the
  recorder nowhere. Its local \<open>PointerInfo\<close> is destroyed after
  \<^verbatim>\<open>TRACER_GUARD_EXIT\<close>, though: for a pointer name of 16 characters or more the
  release of the name's buffer passes the \<^verbatim>\<open>operator delete\<close> hook with the
  in-tracer flag clear, and the hook writes a \<^verbatim>\<open>heap_free\<close> record. The theorem
  evaluates the handler on a started engine for a name of 19 characters, where one
  record is appended and the counter goes from 0 to 1, next to the name \<open>p\<close>, where
  nothing is appended.
\<close>

theorem pointer_heap_init_records_release_of_local:
  "g_pointer_registry
     (trace_pointer_heap_init_loc ''heap_buffer_pointer'' 4096 ''f.c'' 7 8192
        (init_tracer True tracer_initial)) ''heap_buffer_pointer''
     = Some \<lparr> pointerName = ''heap_buffer_pointer'', aliasedAddress = 4096, isHeap = True,
              heapAddress = 4096 \<rparr>
   \<and> recorded
       (trace_pointer_heap_init_loc ''heap_buffer_pointer'' 4096 ''f.c'' 7 8192
          (init_tracer True tracer_initial))
     = [\<lparr> ev_id = 0, ev_type = ''heap_free'', ev_addr = 8192, ev_func = ''operator delete'',
          ev_depth = 0, ev_extra = None \<rparr>]
   \<and> g_event_counter
       (trace_pointer_heap_init_loc ''heap_buffer_pointer'' 4096 ''f.c'' 7 8192
          (init_tracer True tracer_initial)) = 1
   \<and> recorded
       (trace_pointer_heap_init_loc ''p'' 4096 ''f.c'' 7 nullptr
          (init_tracer True tracer_initial)) = []
   \<and> g_event_counter
       (trace_pointer_heap_init_loc ''p'' 4096 ''f.c'' 7 nullptr
          (init_tracer True tracer_initial)) = 0"
proof -
  have s0: "recorded (init_tracer True tracer_initial) = []"
    "g_event_counter (init_tracer True tracer_initial) = 0"
    "g_depth (init_tracer True tracer_initial) = 0"
    by (simp_all add: init_tracer_def tracer_initial_def recorded_def)
  show ?thesis
    by (simp add: pointer_heap_init_effect [OF running_started] s0 on_heap_def nullptr_def)
qed

subsection \<open>Static-initialisation symbols\<close>



subsection \<open>Array element writes\<close>

lemma key_less_equivalence:
  "(\<not> key_less a b \<and> \<not> key_less b a) = (a = b)"
  by (cases a; cases b) (auto simp add: key_less_def)

lemma on_heap_json_safe_path [simp]: "on_heap (json_safe_path file) = on_heap file"
  by (simp add: on_heap_def json_safe_path_def)




subsection \<open>Lifecycle\<close>

lemma before_init:
  "\<not> g_trace_file (run pre tracer_initial)" "\<not> g_inside_tracer (run pre tracer_initial)"
  "g_depth (run pre tracer_initial) < 2048" "\<not> g_tracer_disabled (run pre tracer_initial)"
  "\<not> sink_open (run pre tracer_initial)" "sink_out (run pre tracer_initial) = []"
  "g_event_counter (run pre tracer_initial) = 0"
  using run_before_init [of tracer_initial pre] by (simp_all add: tracer_initial_def)

lemma init_opened:
  "running (init_tracer True (run pre tracer_initial))"
  "sink_open (init_tracer True (run pre tracer_initial))"
  "sink_out (init_tracer True (run pre tracer_initial)) = [Header]"
  "g_event_counter (init_tracer True (run pre tracer_initial)) = 0"
  "g_call_stack (init_tracer True (run pre tracer_initial)) = g_call_stack (run pre tracer_initial)"
  using before_init [of pre] by (simp_all add: init_tracer_def running_def)

lemma init_failed:
  "g_tracer_disabled (init_tracer False (run pre tracer_initial))"
  "\<not> g_trace_file (init_tracer False (run pre tracer_initial))"
  "\<not> sink_open (init_tracer False (run pre tracer_initial))"
  "sink_out (init_tracer False (run pre tracer_initial)) = []"
  "g_event_counter (init_tracer False (run pre tracer_initial)) = 0"
  using before_init [of pre] by (simp_all add: init_tracer_def)

lemma run_g_trace_file: "g_trace_file (run ns s) = g_trace_file s"
  by (induction ns arbitrary: s) (simp_all add: handle_g_trace_file)

lemma run_sink_open: "sink_open (run ns s) = sink_open s"
  by (induction ns arbitrary: s) (simp_all add: handle_sink_open)

lemma process_run_opened:
  "running (process_run True pre ns)" "sink_open (process_run True pre ns)"
  by (simp_all add: process_run_def running_run init_opened run_sink_open)

lemma process_run_failed:
  "process_run False pre ns = init_tracer False (run pre tracer_initial)"
  by (simp add: process_run_def run_shut_down init_failed)

lemma finish_tracer_shut_down:
  "g_tracer_disabled s \<Longrightarrow> finish_tracer statics_destroyed s = Returned s"
  by (simp add: finish_tracer_def)

lemma finish_tracer_running:
  assumes "running s"
  shows "finish_tracer statics_destroyed s
         = (if statics_destroyed \<and> g_tracked_functions s \<noteq> {}
            then Undefined (finish_open_trailer (finish_disable (s\<lparr>g_inside_tracer := True\<rparr>)))
            else Returned (TRACER_GUARD_EXIT (finish_close (finish_write_names
                   (finish_open_trailer (finish_disable (s\<lparr>g_inside_tracer := True\<rparr>)))))))"
  using assms
  by (simp add: running_def finish_tracer_def Let_def finish_open_trailer_def
        finish_disable_def)

text \<open>
  Where the stop returns, whatever the state it was called in, the disabled flag is set
  or the sink handle is null, and on a running engine both: from there on no
  notification changes anything.
\<close>

lemma run_after_finish_tracer:
  assumes "running s" and "finish_tracer statics_destroyed s = Returned t"
  shows "run ms t = t" and "g_tracer_disabled t" and "\<not> g_trace_file t" and "\<not> sink_open t"
proof -
  have t: "t = TRACER_GUARD_EXIT (finish_close (finish_write_names
                 (finish_open_trailer (finish_disable (s\<lparr>g_inside_tracer := True\<rparr>)))))"
    using assms(2) by (simp add: finish_tracer_running [OF assms(1)] split: if_splits)
  show d: "g_tracer_disabled t" and f: "\<not> g_trace_file t" and "\<not> sink_open t"
    by (simp_all add: t guard_defs finish_close_def finish_write_names_def
          finish_open_trailer_def finish_disable_def)
  show "run ms t = t"
    by (rule run_shut_down [OF d f])
qed

lemma entered_state_eval:
  "running entered_state" "g_tracked_functions entered_state = {''g''}"
proof -
  show "running entered_state"
    by (simp add: entered_state_def process_run_opened)
  show "g_tracked_functions entered_state = {''g''}"
    by (simp add: entered_state_def sym_g_def process_run_def init_tracer_def
          tracer_initial_def cyg_profile_func_enter_def enter_func_name_def
          normalize_function_name_def guard_defs Let_def destroy_string_def on_heap_def)
qed

text \<open>
  Claim C3: after \<^verbatim>\<open>finish_tracer\<close> has run, every further notification is a
  no-op: the sink is not reopened, the event counter and the registries do not change
  and the caller is not failed; the stop itself sets the disabled flag before it writes
  the trailer and nulls the sink handle after closing it.

  \<open>run_after_finish_tracer\<close> above shows the first half wherever the stop returns:
  the flag is set, the sink closed, its handle null, and no notification changes the
  state. At the exit of the process the stop does not get that far once a function has
  been entered. The set of tracked functions has then been constructed, it is destroyed
  before the destructor functions run, and \<^verbatim>\<open>finish_tracer\<close> walks it for the
  trailer. The theorem evaluates the stop on a started engine that has entered \<open>g\<close>:
  at exit the result is \<open>Undefined\<close>, reached with the disabled flag set and the
  trailer opened, the sink still open and its handle not null; called while the statics
  are alive, the same stop returns with the handle null.
\<close>

theorem finish_tracer_at_exit_uses_destroyed_set:
  "g_tracked_functions entered_state = {''g''}
   \<and> finish_tracer True entered_state
       = Undefined (finish_open_trailer (finish_disable
           (entered_state\<lparr>g_inside_tracer := True\<rparr>)))
   \<and> g_tracer_disabled (finish_open_trailer (finish_disable
           (entered_state\<lparr>g_inside_tracer := True\<rparr>)))
   \<and> g_trace_file (finish_open_trailer (finish_disable
           (entered_state\<lparr>g_inside_tracer := True\<rparr>)))
   \<and> sink_open (finish_open_trailer (finish_disable
           (entered_state\<lparr>g_inside_tracer := True\<rparr>)))
   \<and> last (sink_out (finish_open_trailer (finish_disable
           (entered_state\<lparr>g_inside_tracer := True\<rparr>)))) = TrailerOpen
   \<and> finish_tracer False entered_state
       = Returned (TRACER_GUARD_EXIT (finish_close (finish_write_names (finish_open_trailer
           (finish_disable (entered_state\<lparr>g_inside_tracer := True\<rparr>))))))
   \<and> \<not> g_trace_file (TRACER_GUARD_EXIT (finish_close (finish_write_names
           (finish_open_trailer (finish_disable
              (entered_state\<lparr>g_inside_tracer := True\<rparr>))))))"
proof -
  have so: "sink_open entered_state"
    unfolding entered_state_def by (rule process_run_opened)
  have fl: "g_trace_file entered_state"
    using entered_state_eval(1) by (simp add: running_def)
  show ?thesis
    by (simp add: finish_tracer_running [OF entered_state_eval(1)] entered_state_eval(2)
          so fl finish_open_trailer_def finish_disable_def finish_close_def
          finish_write_names_def guard_defs)
qed

text \<open>
  Claim C4, as stated: tracing is disabled by default, so that before
  \<^verbatim>\<open>init_tracer\<close> runs the disabled flag is set. The flag is initialised to false,
  and a function-enter that arrives before \<^verbatim>\<open>init_tracer\<close> passes the guard: it
  raises the depth and pushes a frame.
\<close>

theorem disabled_flag_before_init_counterexample:
  "\<not> g_tracer_disabled tracer_initial
   \<and> g_depth (cyg_profile_func_enter 1 2 None nullptr nullptr tracer_initial) = 1
   \<and> map functionName
        (g_call_stack (cyg_profile_func_enter 1 2 None nullptr nullptr tracer_initial))
       = [''main'']"
  by (simp add: tracer_initial_def cyg_profile_func_enter_def enter_func_name_def guard_defs
        normalize_function_name_def write_json_event_def Let_def destroy_string_def
        on_heap_def)

text \<open>
  Claim C4, amended: what keeps a notification from being recorded before
  \<^verbatim>\<open>init_tracer\<close> is the null sink handle, not the disabled flag. Whatever
  notifications arrive before \<^verbatim>\<open>init_tracer\<close>, the handle stays null, nothing is
  written and the event counter stays 0. When the sink opens, \<^verbatim>\<open>init_tracer\<close>
  leaves the flag clear, sets the handle and writes the envelope header. When opening
  fails it sets the flag and leaves the handle null, and from then on every sequence of
  notifications and \<^verbatim>\<open>finish_tracer\<close> leave the state as it is, with no record and
  the counter at 0; each handler still returns to its caller.
\<close>

theorem sink_handle_gates_recording:
  "\<not> g_trace_file (run pre tracer_initial)
   \<and> sink_out (run pre tracer_initial) = []
   \<and> g_event_counter (run pre tracer_initial) = 0
   \<and> \<not> g_tracer_disabled (init_tracer True (run pre tracer_initial))
   \<and> g_trace_file (init_tracer True (run pre tracer_initial))
   \<and> sink_out (init_tracer True (run pre tracer_initial)) = [Header]
   \<and> g_tracer_disabled (init_tracer False (run pre tracer_initial))
   \<and> \<not> g_trace_file (init_tracer False (run pre tracer_initial))
   \<and> run ns (init_tracer False (run pre tracer_initial)) = init_tracer False (run pre tracer_initial)
   \<and> finish_tracer statics_destroyed (init_tracer False (run pre tracer_initial))
       = Returned (init_tracer False (run pre tracer_initial))
   \<and> sink_out (init_tracer False (run pre tracer_initial)) = []
   \<and> g_event_counter (init_tracer False (run pre tracer_initial)) = 0"
  using before_init [of pre] init_opened [of pre] init_failed [of pre]
  by (simp add: running_def run_shut_down finish_tracer_shut_down)

subsection \<open>Event ids\<close>

lemma ids_in_order_update [simp]:
  "ids_in_order (g_trace_file_update f1 s) = ids_in_order s"
  "ids_in_order (sink_open_update f2 s) = ids_in_order s"
  "ids_in_order (g_depth_update f3 s) = ids_in_order s"
  "ids_in_order (g_inside_tracer_update f5 s) = ids_in_order s"
  "ids_in_order (g_tracer_disabled_update f6 s) = ids_in_order s"
  "ids_in_order (g_variable_values_update f7 s) = ids_in_order s"
  "ids_in_order (g_array_registry_update f8 s) = ids_in_order s"
  "ids_in_order (g_address_to_name_update f9 s) = ids_in_order s"
  "ids_in_order (g_array_element_values_update f10 s) = ids_in_order s"
  "ids_in_order (g_tracked_functions_update f11 s) = ids_in_order s"
  "ids_in_order (g_current_function_update f12 s) = ids_in_order s"
  "ids_in_order (g_pointer_registry_update f13 s) = ids_in_order s"
  "ids_in_order (g_call_stack_update f14 s) = ids_in_order s"
  by (simp_all add: ids_in_order_def)

lemma ids_in_order_write [simp]:
  "ids_in_order s \<Longrightarrow> ids_in_order (write_json_event ty a f d x s)"
  by (simp add: ids_in_order_def write_json_event_def)

lemma ids_in_order_destroy_string [simp]:
  "ids_in_order s \<Longrightarrow> ids_in_order (destroy_string str buf s)"
  by (simp add: destroy_string_def operator_delete_def heap_free_hook_def
        TRACER_GUARD_EXIT_def Let_def)

lemma ids_in_order_array_init_loop [simp]:
  "ids_in_order s \<Longrightarrow> ids_in_order (array_init_loop nm vals f line idxs s)"
  by (induction idxs arbitrary: s) (simp_all add: Let_def)

lemma ids_in_order_array_init_string_loop [simp]:
  "ids_in_order s \<Longrightarrow> ids_in_order (array_init_string_loop nm f line ics s)"
  by (induction ics arbitrary: s) (simp_all add: Let_def)

lemma ids_in_order_close_active_loops [simp]:
  "ids_in_order s \<Longrightarrow> ids_in_order (close_active_loops ls s)"
  by (induction ls arbitrary: s) simp_all

lemma ids_in_order_handle:
  assumes "ids_in_order s"
  shows "ids_in_order (handle n s)"
  using assms
  by (cases n; simp add: handler_defs guard_defs Let_def split: list.split option.split)

lemma ids_in_order_run: "ids_in_order s \<Longrightarrow> ids_in_order (run ns s)"
  by (induction ns arbitrary: s) (simp_all add: ids_in_order_handle)

lemma ids_in_order_process_run: "ids_in_order (process_run fopen_ok pre ns)"
proof -
  have "ids_in_order (init_tracer fopen_ok (run pre tracer_initial))"
    using init_opened [of pre] init_failed [of pre]
    by (cases fopen_ok) (simp_all add: ids_in_order_def recorded_def)
  then show ?thesis by (simp add: process_run_def ids_in_order_run)
qed

lemma unat_ids:
  assumes "n \<le> 2 ^ 64"
  shows "map (unat \<circ> (of_nat :: nat \<Rightarrow> 64 word)) [0..<n] = [0..<n]"
proof -
  have "(unat \<circ> (of_nat :: nat \<Rightarrow> 64 word)) i = i" if "i \<in> set [0..<n]" for i
  proof -
    from that assms have "i < (2::nat) ^ 64" by simp
    then show ?thesis by (simp add: unat_of_nat)
  qed
  then have "map (unat \<circ> (of_nat :: nat \<Rightarrow> 64 word)) [0..<n] = map (\<lambda>i. i) [0..<n]"
    by (intro map_cong) simp_all
  then show ?thesis by simp
qed

text \<open>
  Claim C5: in every process run the ids of the recorded events are \<open>0, 1, 2, \<dots>\<close>
  in the order of the records, each one more than the one before, and the counter they
  are taken from is the number of records written, so it starts at 0 and moves only
  when a record is written. The counter is an \<^verbatim>\<open>unsigned long\<close>: the equations hold
  in 64-bit arithmetic, and the ids read as numbers are exactly \<open>0, \<dots>, n - 1\<close> for
  a log of at most \<open>2 ^ 64\<close> records.
\<close>

theorem event_ids_count_from_zero:
  "map ev_id (recorded (process_run fopen_ok pre ns))
     = map of_nat [0..<length (recorded (process_run fopen_ok pre ns))]
   \<and> g_event_counter (process_run fopen_ok pre ns)
     = of_nat (length (recorded (process_run fopen_ok pre ns)))
   \<and> (length (recorded (process_run fopen_ok pre ns)) \<le> 2 ^ 64 \<longrightarrow>
        map (unat \<circ> ev_id) (recorded (process_run fopen_ok pre ns))
          = [0..<length (recorded (process_run fopen_ok pre ns))])"
proof -
  have io: "ids_in_order (process_run fopen_ok pre ns)"
    by (rule ids_in_order_process_run)
  then have m: "map ev_id (recorded (process_run fopen_ok pre ns))
     = map of_nat [0..<length (recorded (process_run fopen_ok pre ns))]"
    by (simp add: ids_in_order_def)
  have "map (unat \<circ> ev_id) (recorded (process_run fopen_ok pre ns))
          = map unat (map ev_id (recorded (process_run fopen_ok pre ns)))"
    by simp
  also have "\<dots> = map (unat \<circ> (of_nat :: nat \<Rightarrow> 64 word))
                    [0..<length (recorded (process_run fopen_ok pre ns))]"
    by (simp only: m map_map)
  finally have u: "map (unat \<circ> ev_id) (recorded (process_run fopen_ok pre ns))
     = map (unat \<circ> (of_nat :: nat \<Rightarrow> 64 word))
         [0..<length (recorded (process_run fopen_ok pre ns))]" .
  show ?thesis
    using io u unat_ids [of "length (recorded (process_run fopen_ok pre ns))"]
    by (simp add: ids_in_order_def)
qed


theorem event_ids_count_from_zero_witness:
  "length (recorded (process_run True []
       [Assign ''x'' 1 ''f.c'' 2 nullptr, VarInt ''x'' 1 ''f.c'' 3 nullptr])) \<le> 2 ^ 64
   \<and> map (unat \<circ> ev_id) (recorded (process_run True []
       [Assign ''x'' 1 ''f.c'' 2 nullptr, VarInt ''x'' 1 ''f.c'' 3 nullptr])) = [0, 1]"
proof -
  have len: "length (recorded (process_run True []
       [Assign ''x'' 1 ''f.c'' 2 nullptr, VarInt ''x'' 1 ''f.c'' 3 nullptr])) = 2"
    by (simp add: process_run_def init_tracer_def tracer_initial_def trace_assign_loc_def
          trace_var_int_loc_def guard_defs write_json_event_def recorded_def Let_def
          destroy_string_def on_heap_def json_safe_path_def)
  have two: "[0..<2] = [0, Suc 0]"
    by (simp add: upt_rec)
  show ?thesis
    using len two event_ids_count_from_zero [of True "[]"
        "[Assign ''x'' 1 ''f.c'' 2 nullptr, VarInt ''x'' 1 ''f.c'' 3 nullptr]"]
    by simp
qed

subsection \<open>Pointer lookup\<close>

lemma findPointerInfo_inside [simp]:
  "findPointerInfo p (s\<lparr>g_inside_tracer := b\<rparr>) = findPointerInfo p s"
  by (simp add: findPointerInfo_def cong: option.case_cong)

lemma deref_write_recorded:
  assumes "running s"
  shows "recorded (trace_pointer_deref_write_loc p v file line f_buf target_buf s) ! length (recorded s)
         = \<lparr> ev_id = g_event_counter s, ev_type = ''pointer_deref_write'',
             ev_addr = (case findPointerInfo p s of
                          Some q \<Rightarrow> aliasedAddress q | None \<Rightarrow> nullptr),
             ev_func = g_current_function s, ev_depth = g_depth s,
             ev_extra = Some
               [(''pointerName'', JStr p), (''value'', JInt v),
                (''targetName'', JStr (case findPointerInfo p s of
                    Some q \<Rightarrow> (case g_address_to_name s (aliasedAddress q) of
                                 Some n \<Rightarrow> n | None \<Rightarrow> ''unknown'')
                  | None \<Rightarrow> ''unknown'')),
                (''isHeap'', JBool (case findPointerInfo p s of
                    Some q \<Rightarrow> isHeap q | None \<Rightarrow> False)),
                (''file'', JStr (json_safe_path file)), (''line'', JInt line)] \<rparr>"
    and "length (recorded s) < length (recorded (trace_pointer_deref_write_loc p v file line f_buf target_buf s))"
  using assms
  by (simp_all add: running_def trace_pointer_deref_write_loc_def guard_defs Let_def
        recorded_write counter_write recorded_destroy_string nth_append
        cong: option.case_cong)

lemma func_exit_pops:
  assumes "running s" and "0 < g_depth s" and "exit_func_name dl = Some nm"
  shows "g_call_stack (cyg_profile_func_exit func caller dl s) = tl (g_call_stack s)"
    and "g_pointer_registry (cyg_profile_func_exit func caller dl s) = g_pointer_registry s"
    and "g_depth (cyg_profile_func_exit func caller dl s) = g_depth s - 1"
  using assms
  by (simp_all add: running_def cyg_profile_func_exit_def guard_defs Let_def
        split: list.split)

lemma shadow_state_eval:
  "g_pointer_registry shadow_state ''p''
     = Some \<lparr> pointerName = ''p'', aliasedAddress = 100, isHeap = False, heapAddress = nullptr \<rparr>"
  "g_call_stack shadow_state
     = [\<lparr> functionName = ''f'',
          pointerAliases = [''p'' \<mapsto> \<lparr> pointerName = ''p'', aliasedAddress = 200,
                                       isHeap = False, heapAddress = nullptr \<rparr>],
          activeLoops = [], loopIterations = Map.empty \<rparr>,
        \<lparr> functionName = ''g'',
          pointerAliases = [''p'' \<mapsto> \<lparr> pointerName = ''p'', aliasedAddress = 300,
                                       isHeap = False, heapAddress = nullptr \<rparr>],
          activeLoops = [], loopIterations = Map.empty \<rparr>]"
  "g_depth shadow_state = 2"
  by (simp_all add: shadow_state_def sym_g_def sym_f_def process_run_def init_tracer_def
        tracer_initial_def trace_pointer_alias_loc_def cyg_profile_func_enter_def
        enter_func_name_def normalize_function_name_def guard_defs write_json_event_def
        Let_def destroy_string_def on_heap_def json_safe_path_def)

lemma running_shadow_state: "running shadow_state"
  by (simp add: shadow_state_def process_run_opened)

text \<open>
  Claim C7, as stated: when the process-wide registry maps \<open>p\<close> to address A and the
  innermost frame maps \<open>p\<close> to address B, a pointer-deref-write to \<open>p\<close> resolves B
  while that frame is live and A again after the frame has been popped. In
  \<open>shadow_state\<close> the registry has 100 and the frame of \<open>f\<close> has 200, and the write
  resolves 200; after the exit of \<open>f\<close> the frame of its caller \<open>g\<close> is innermost,
  and the write resolves the 300 found there, not the 100 of the registry.
\<close>

theorem outer_alias_after_pop_counterexample:
  "g_pointer_registry shadow_state ''p''
     = Some \<lparr> pointerName = ''p'', aliasedAddress = 100, isHeap = False, heapAddress = nullptr \<rparr>
   \<and> pointerAliases (hd (g_call_stack shadow_state)) ''p''
     = Some \<lparr> pointerName = ''p'', aliasedAddress = 200, isHeap = False, heapAddress = nullptr \<rparr>
   \<and> ev_addr (recorded (trace_pointer_deref_write_loc ''p'' 7 ''a.c'' 4 nullptr nullptr shadow_state)
               ! length (recorded shadow_state)) = 200
   \<and> map functionName (g_call_stack (cyg_profile_func_exit 11 10 sym_f shadow_state)) = [''g'']
   \<and> ev_addr (recorded (trace_pointer_deref_write_loc ''p'' 7 ''a.c'' 5 nullptr nullptr
                 (cyg_profile_func_exit 11 10 sym_f shadow_state))
               ! length (recorded (cyg_profile_func_exit 11 10 sym_f shadow_state))) = 300"
proof -
  have nm: "exit_func_name sym_f = Some ''f''"
    by (simp add: exit_func_name_def sym_f_def)
  have r: "running (cyg_profile_func_exit 11 10 sym_f shadow_state)"
    using running_handle [OF running_shadow_state, of "FuncExit 11 10 sym_f"] by simp
  have st: "g_call_stack (cyg_profile_func_exit 11 10 sym_f shadow_state)
            = tl (g_call_stack shadow_state)"
    and reg: "g_pointer_registry (cyg_profile_func_exit 11 10 sym_f shadow_state)
            = g_pointer_registry shadow_state"
    using func_exit_pops [OF running_shadow_state _ nm, of 11 10]
    by (simp_all add: shadow_state_eval)
  show ?thesis
    by (simp add: deref_write_recorded [OF running_shadow_state] deref_write_recorded [OF r]
          findPointerInfo_def st reg shadow_state_eval)
qed

text \<open>
  Claim C7, amended: the lookup walks the frames from the innermost outward and falls
  back to the process-wide registry only when no frame has the name. On a running
  engine whose innermost frame maps \<open>p\<close> to B while the registry maps \<open>p\<close> to A, a
  pointer-deref-write to \<open>p\<close> writes a \<^verbatim>\<open>pointer_deref_write\<close> record with target
  B. After the function-exit that pops this frame, the same write has as target the
  alias of the innermost remaining frame that has one for \<open>p\<close>, and A when no remaining
  frame has one.
\<close>

theorem pointer_lookup_innermost_first:
  assumes "running s" and "g_call_stack s = fr # frs"
    and "pointerAliases fr p = Some pb" and "g_pointer_registry s p = Some pa"
    and "0 < g_depth s" and "exit_func_name dl = Some nm"
  shows "findPointerInfo p s = Some pb
       \<and> ev_type (recorded (trace_pointer_deref_write_loc p v file line f_buf target_buf s)
                   ! length (recorded s)) = ''pointer_deref_write''
       \<and> ev_addr (recorded (trace_pointer_deref_write_loc p v file line f_buf target_buf s)
                   ! length (recorded s)) = aliasedAddress pb
       \<and> g_call_stack (cyg_profile_func_exit func caller dl s) = frs
       \<and> findPointerInfo p (cyg_profile_func_exit func caller dl s)
           = (case find_in_frames frs p of Some q \<Rightarrow> Some q | None \<Rightarrow> Some pa)
       \<and> ev_addr (recorded (trace_pointer_deref_write_loc p v file line f_buf target_buf
                      (cyg_profile_func_exit func caller dl s))
                   ! length (recorded (cyg_profile_func_exit func caller dl s)))
           = (case find_in_frames frs p of
                Some q \<Rightarrow> aliasedAddress q | None \<Rightarrow> aliasedAddress pa)"
proof -
  have r: "running (cyg_profile_func_exit func caller dl s)"
    using running_handle [OF assms(1), of "FuncExit func caller dl"] by simp
  have st: "g_call_stack (cyg_profile_func_exit func caller dl s) = frs"
    and reg: "g_pointer_registry (cyg_profile_func_exit func caller dl s) = g_pointer_registry s"
    using func_exit_pops [OF assms(1,5,6), of func caller] assms(2) by simp_all
  have inner: "findPointerInfo p s = Some pb"
    using assms(2,3) by (simp add: findPointerInfo_def)
  have outer: "findPointerInfo p (cyg_profile_func_exit func caller dl s)
           = (case find_in_frames frs p of Some q \<Rightarrow> Some q | None \<Rightarrow> Some pa)"
    using assms(4) by (simp add: findPointerInfo_def st reg cong: option.case_cong)
  show ?thesis
    using inner outer st
    by (simp add: deref_write_recorded [OF assms(1)] deref_write_recorded [OF r]
          split: option.split)
qed

theorem pointer_lookup_innermost_first_witness:
  "running shadow_state
   \<and> findPointerInfo ''p'' shadow_state
       = Some \<lparr> pointerName = ''p'', aliasedAddress = 200, isHeap = False, heapAddress = nullptr \<rparr>
   \<and> findPointerInfo ''p'' (cyg_profile_func_exit 11 10 sym_f shadow_state)
       = Some \<lparr> pointerName = ''p'', aliasedAddress = 300, isHeap = False, heapAddress = nullptr \<rparr>"
proof -
  have nm: "exit_func_name sym_f = Some ''f''"
    by (simp add: exit_func_name_def sym_f_def)
  show ?thesis
    using pointer_lookup_innermost_first [OF running_shadow_state shadow_state_eval(2) _
        shadow_state_eval(1) _ nm, of _ 0 "''a.c''" 0 nullptr nullptr 11 10]
    by (simp add: running_shadow_state shadow_state_eval(3))
qed

subsection \<open>Depth and the call stack\<close>

lemma close_active_loops_recorded:
  assumes "g_trace_file s" and "g_depth s < 2048"
  shows "recorded (close_active_loops ls s)
         = recorded s @ synthetic_loop_ends (g_current_function s) (g_depth s)
                          (g_event_counter s) ls
       \<and> g_event_counter (close_active_loops ls s) = g_event_counter s + of_nat (length ls)"
  using assms
  by (induction ls arbitrary: s) (simp_all add: recorded_write counter_write)

lemma func_enter_pushes:
  assumes "running s" and "g_depth s + 1 < 2048" and "enter_func_name dl = Some nm"
    and "\<not> on_heap nm"
  shows "g_depth (cyg_profile_func_enter func caller dl fn_buf frame_buf s) = g_depth s + 1"
    and "g_call_stack (cyg_profile_func_enter func caller dl fn_buf frame_buf s)
         = \<lparr> functionName = normalize_function_name nm, pointerAliases = Map.empty,
             activeLoops = [], loopIterations = Map.empty \<rparr> # g_call_stack s"
    and "recorded (cyg_profile_func_enter func caller dl fn_buf frame_buf s)
         = recorded s @ [\<lparr> ev_id = g_event_counter s, ev_type = ''func_enter'',
                             ev_addr = func, ev_func = nm, ev_depth = g_depth s + 1,
                             ev_extra = Some [(''caller'', JPtr caller)] \<rparr>]"
    and "g_event_counter (cyg_profile_func_enter func caller dl fn_buf frame_buf s)
         = g_event_counter s + 1"
  using assms on_heap_normalize [OF assms(4)]
  by (simp_all add: running_def cyg_profile_func_enter_def guard_defs Let_def
        recorded_write counter_write destroy_string_short)

lemma func_enter_at_ceiling:
  assumes "running s" and "g_depth s = 2047"
  shows "cyg_profile_func_enter func caller dl fn_buf frame_buf s = s"
  using assms
  by (simp add: running_def cyg_profile_func_enter_def guard_defs Let_def)

lemma func_exit_recorded:
  assumes "running s" and "0 < g_depth s" and "exit_func_name dl = Some nm"
    and "g_call_stack s = fr # frs"
  shows "recorded (cyg_profile_func_exit func caller dl s)
         = recorded s
           @ synthetic_loop_ends (g_current_function s) (g_depth s) (g_event_counter s)
               (rev (activeLoops fr))
           @ [\<lparr> ev_id = g_event_counter s + of_nat (length (activeLoops fr)),
                ev_type = ''func_exit'', ev_addr = func, ev_func = nm,
                ev_depth = g_depth s, ev_extra = None \<rparr>]"
proof -
  let ?t = "s\<lparr>g_inside_tracer := True\<rparr>"
  have c: "recorded (close_active_loops (rev (activeLoops fr)) ?t)
           = recorded s @ synthetic_loop_ends (g_current_function s) (g_depth s)
                            (g_event_counter s) (rev (activeLoops fr))"
    "g_event_counter (close_active_loops (rev (activeLoops fr)) ?t)
           = g_event_counter s + of_nat (length (activeLoops fr))"
    using assms(1) close_active_loops_recorded [of ?t "rev (activeLoops fr)"]
    by (simp_all add: running_def)
  show ?thesis
    using assms
    by (simp add: running_def cyg_profile_func_exit_def guard_defs Let_def
          recorded_write counter_write c split: list.split)
qed

lemma nested_enters:
  assumes "running s" and "g_depth s + int n < 2048" and "enter_func_name dl = Some nm"
    and "\<not> on_heap nm"
  shows "g_depth (run (replicate n (FuncEnter func caller dl fn_buf frame_buf)) s) = g_depth s + int n
       \<and> g_call_stack (run (replicate n (FuncEnter func caller dl fn_buf frame_buf)) s)
           = replicate n \<lparr> functionName = normalize_function_name nm,
                           pointerAliases = Map.empty, activeLoops = [],
                           loopIterations = Map.empty \<rparr> @ g_call_stack s
       \<and> g_event_counter (run (replicate n (FuncEnter func caller dl fn_buf frame_buf)) s)
           = g_event_counter s + of_nat n"
  using assms
proof (induction n arbitrary: s)
  case 0
  then show ?case by simp
next
  case (Suc n)
  let ?s' = "cyg_profile_func_enter func caller dl fn_buf frame_buf s"
  have step: "g_depth s + 1 < 2048" using Suc.prems(2) by simp
  have r: "running ?s'"
    using running_handle [OF Suc.prems(1), of "FuncEnter func caller dl fn_buf frame_buf"]
    by simp
  note push = func_enter_pushes [OF Suc.prems(1) step Suc.prems(3) Suc.prems(4),
      of func caller fn_buf frame_buf]
  have d: "g_depth ?s' + int n < 2048"
    using Suc.prems(2) by (simp add: push(1))
  from Suc.IH [OF r d Suc.prems(3) Suc.prems(4)] show ?case
    by (simp add: push replicate_app_Cons_same)
qed

lemma ceiling_state_eval:
  "running ceiling_state" "g_depth ceiling_state = 2047"
  "g_call_stack ceiling_state
     = \<lparr> functionName = ''g'', pointerAliases = Map.empty, activeLoops = [],
         loopIterations = Map.empty \<rparr>
       # replicate 2046 \<lparr> functionName = ''g'', pointerAliases = Map.empty,
                          activeLoops = [], loopIterations = Map.empty \<rparr>"
  "g_event_counter ceiling_state = 2047"
proof -
  have nm: "enter_func_name sym_g = Some ''g''"
    by (simp add: enter_func_name_def sym_g_def)
  have norm: "normalize_function_name ''g'' = ''g''"
    by (simp add: normalize_function_name_def)
  have s0: "running (init_tracer True (run [] tracer_initial))"
    "g_depth (init_tracer True (run [] tracer_initial)) + int 2047 < 2048"
    "g_call_stack (init_tracer True (run [] tracer_initial)) = []"
    "g_event_counter (init_tracer True (run [] tracer_initial)) = 0"
    "g_depth (init_tracer True (run [] tracer_initial)) = 0"
    by (simp_all add: init_tracer_def tracer_initial_def running_def)
  have short: "\<not> on_heap ''g''"
    by (simp add: on_heap_def)
  note n = nested_enters [OF s0(1) s0(2) nm short, of 10 1 nullptr nullptr,
      unfolded norm s0(3) s0(4) s0(5)]
  have rep: "replicate 2047 x = x # replicate 2046 x" for x :: CallFrame
    using replicate_Suc [of 2046 x] by simp
  show "running ceiling_state"
    by (simp add: ceiling_state_def process_run_opened)
  show "g_depth ceiling_state = 2047"
    using n by (simp add: ceiling_state_def process_run_def)
  show "g_call_stack ceiling_state
     = \<lparr> functionName = ''g'', pointerAliases = Map.empty, activeLoops = [],
         loopIterations = Map.empty \<rparr>
       # replicate 2046 \<lparr> functionName = ''g'', pointerAliases = Map.empty,
                          activeLoops = [], loopIterations = Map.empty \<rparr>"
    using n by (simp add: ceiling_state_def process_run_def rep)
  show "g_event_counter ceiling_state = 2047"
    using n by (simp add: ceiling_state_def process_run_def)
qed

text \<open>
  Claim C2: the depth rises by one across a function-enter and falls by one across the
  matching function-exit, never below zero; at the ceiling of 2048 a function-enter
  pushes no frame and the matching function-exit finds nothing to pop and does nothing.

  \<open>func_enter_pushes\<close> and \<open>func_exit_pops\<close> above give the steps by one, and the
  exit handler returns at once when the depth is not positive. At the ceiling the
  function-enter of \<open>f\<close> leaves the state as it is, so nothing tells its
  function-exit apart from that of the caller: the handler only tests that the depth is
  positive. The theorem evaluates both on \<open>ceiling_state\<close>: the exit of \<open>f\<close> pops
  the frame of the caller \<open>g\<close>, writes a \<^verbatim>\<open>func_exit\<close> record for \<open>f\<close> at depth
  2047 and lowers the depth to 2046.
\<close>

theorem func_exit_after_dropped_enter_pops:
  "g_depth ceiling_state = 2047
   \<and> length (g_call_stack ceiling_state) = 2047
   \<and> cyg_profile_func_enter 12 10 sym_f nullptr nullptr ceiling_state = ceiling_state
   \<and> g_depth (cyg_profile_func_exit 12 10 sym_f
                (cyg_profile_func_enter 12 10 sym_f nullptr nullptr ceiling_state)) = 2046
   \<and> length (g_call_stack (cyg_profile_func_exit 12 10 sym_f
                (cyg_profile_func_enter 12 10 sym_f nullptr nullptr ceiling_state))) = 2046
   \<and> last (recorded (cyg_profile_func_exit 12 10 sym_f
                (cyg_profile_func_enter 12 10 sym_f nullptr nullptr ceiling_state)))
       = \<lparr> ev_id = 2047, ev_type = ''func_exit'', ev_addr = 12, ev_func = ''f'',
           ev_depth = 2047, ev_extra = None \<rparr>"
proof -
  have nm: "exit_func_name sym_f = Some ''f''"
    by (simp add: exit_func_name_def sym_f_def)
  have pos: "0 < g_depth ceiling_state"
    by (simp add: ceiling_state_eval)
  have e: "cyg_profile_func_enter 12 10 sym_f nullptr nullptr ceiling_state = ceiling_state"
    by (rule func_enter_at_ceiling) (rule ceiling_state_eval)+
  note pops = func_exit_pops [OF ceiling_state_eval(1) pos nm, of 12 10]
  note rec = func_exit_recorded [OF ceiling_state_eval(1) pos nm ceiling_state_eval(3), of 12 10]
  show ?thesis
    by (simp add: e pops rec ceiling_state_eval)
qed

subsection \<open>Loops are closed before the function exits\<close>

lemma replay_snoc: "replay (es @ [e]) st = replay_step e (replay es st)"
  by (simp add: replay_def)

lemma replay_append: "replay (es @ fs) st = fold replay_step fs (replay es st)"
  by (simp add: replay_def)

lemma replay_step_other:
  assumes "ev_type e \<noteq> ''func_enter''" and "ev_type e \<noteq> ''func_exit''"
    and "ev_type e \<noteq> ''loop_start''" and "ev_type e \<noteq> ''loop_end''"
  shows "replay_step e r = r"
  using assms by (cases r) simp_all

lemma replay_write_other:
  assumes "ty \<noteq> ''func_enter''" and "ty \<noteq> ''func_exit''"
    and "ty \<noteq> ''loop_start''" and "ty \<noteq> ''loop_end''"
  shows "replay (recorded (write_json_event ty a f d x s)) st = replay (recorded s) st"
  using assms by (simp add: recorded_write replay_snoc replay_step_other)

lemma replay_destroy_string [simp]:
  "replay (recorded (destroy_string str buf s)) st = replay (recorded s) st"
  by (simp add: destroy_string_def operator_delete_def heap_free_hook_def
        TRACER_GUARD_EXIT_def Let_def replay_write_other)

lemma replay_array_init_loop:
  "replay (recorded (array_init_loop nm vals f line idxs s)) st = replay (recorded s) st"
  by (induction idxs arbitrary: s) (simp_all add: Let_def replay_write_other)

lemma replay_array_init_string_loop:
  "replay (recorded (array_init_string_loop nm f line ics s)) st = replay (recorded s) st"
  by (induction ics arbitrary: s) (simp_all add: Let_def replay_write_other)

lemma fold_remove1_all:
  "mset xs \<subseteq># mset ys \<Longrightarrow> fold remove1 ys xs = []"
proof (induction ys arbitrary: xs)
  case Nil
  then show ?case by simp
next
  case (Cons y ys)
  have "mset (remove1 y xs) \<subseteq># mset ys"
    using Cons.prems by (simp add: subset_eq_diff_conv)
  then show ?case by (simp add: Cons.IH)
qed

lemma event_loop_id_synthetic:
  "event_loop_id \<lparr> ev_id = c, ev_type = ty, ev_addr = a, ev_func = fn, ev_depth = d,
       ev_extra = Some ((''loopId'', JInt l) # rest) \<rparr> = Some l"
  by (simp add: event_loop_id_def)

lemma replay_synthetic_loop_ends:
  "fold replay_step (synthetic_loop_ends fn d c ls) (Some (pending # outer))
   = Some (fold remove1 ls pending # outer)"
  by (induction ls arbitrary: c pending) (simp_all add: event_loop_id_synthetic)

lemma map_event_loop_id_synthetic:
  "map event_loop_id (synthetic_loop_ends fn d c ls) = map Some ls"
  by (induction ls arbitrary: c) (simp_all add: event_loop_id_synthetic)


lemma replay_func_exit:
  assumes "running s"
    and "replay (recorded s) st = Some (map activeLoops (g_call_stack s))"
  shows "replay (recorded (cyg_profile_func_exit func caller dl s)) st
         = Some (map activeLoops (g_call_stack (cyg_profile_func_exit func caller dl s)))"
proof (cases "0 < g_depth s")
  case False
  then have "cyg_profile_func_exit func caller dl s = s"
    using assms(1) by (simp add: running_def cyg_profile_func_exit_def guard_defs)
  then show ?thesis using assms(2) by simp
next
  case pos: True
  show ?thesis
  proof (cases "exit_func_name dl")
    case None
    then have "cyg_profile_func_exit func caller dl s = s"
      using assms(1) pos by (simp add: running_def cyg_profile_func_exit_def guard_defs)
    then show ?thesis using assms(2) by simp
  next
    case (Some nm)
    show ?thesis
    proof (cases "g_call_stack s")
      case Nil
      then show ?thesis
        using assms pos Some
        by (simp add: running_def cyg_profile_func_exit_def guard_defs Let_def
              recorded_write replay_snoc)
    next
      case (Cons fr frs)
      have closed: "fold remove1 (rev (activeLoops fr)) (activeLoops fr) = []"
        by (rule fold_remove1_all) simp
      show ?thesis
        using assms(2)
        by (simp add: func_exit_recorded [OF assms(1) pos Some Cons]
              func_exit_pops [OF assms(1) pos Some] Cons replay_append
              replay_synthetic_loop_ends closed)
    qed
  qed
qed

lemma replay_handle:
  assumes "running s"
    and "replay (recorded s) st = Some (map activeLoops (g_call_stack s))"
  shows "replay (recorded (handle n s)) st = Some (map activeLoops (g_call_stack (handle n s)))"
proof (cases n)
  case (FuncExit func caller dl)
  then show ?thesis using replay_func_exit [OF assms] by simp
next
  case (ArrayInit nm vals cnt fl ln u)
  then show ?thesis
    using assms
    by (simp add: running_def trace_array_init_loc_def guard_defs Let_def
          replay_array_init_loop)
next
  case (ArrayInitString nm str fl ln u)
  then show ?thesis
    using assms
    by (simp add: running_def trace_array_init_string_loc_def guard_defs Let_def
          replay_array_init_string_loop)
qed (insert assms,
     simp_all add: running_def handler_defs guard_defs Let_def recorded_write replay_append
       event_loop_id_def split: list.split option.split)


lemma replay_run:
  assumes "running s"
    and "replay (recorded s) st = Some (map activeLoops (g_call_stack s))"
  shows "replay (recorded (run ns s)) st = Some (map activeLoops (g_call_stack (run ns s)))"
  using assms
proof (induction ns arbitrary: s)
  case Nil
  then show ?case by simp
next
  case (Cons n ns)
  from Cons.IH [OF running_handle [OF Cons.prems(1)] replay_handle [OF Cons.prems]]
  show ?case by simp
qed

lemma replay_process_run:
  "replay (recorded (process_run True pre ns))
     (map activeLoops (g_call_stack (run pre tracer_initial)))
   = Some (map activeLoops (g_call_stack (process_run True pre ns)))"
proof -
  have "replay (recorded (init_tracer True (run pre tracer_initial)))
          (map activeLoops (g_call_stack (run pre tracer_initial)))
        = Some (map activeLoops (g_call_stack (init_tracer True (run pre tracer_initial))))"
    by (simp add: init_opened recorded_def replay_def)
  from replay_run [OF init_opened(1) this] show ?thesis
    by (simp add: process_run_def)
qed

lemma open_loops_state_eval:
  "g_call_stack open_loops_state
     = [\<lparr> functionName = ''g'', pointerAliases = Map.empty, activeLoops = [1, 2],
          loopIterations = [1 \<mapsto> 0, 2 \<mapsto> 0] \<rparr>]"
  "g_depth open_loops_state = 1" "g_event_counter open_loops_state = 3"
  "g_current_function open_loops_state = ''g''"
  by (simp_all add: open_loops_state_def sym_g_def process_run_def init_tracer_def
        tracer_initial_def trace_loop_start_loc_def cyg_profile_func_enter_def
        enter_func_name_def normalize_function_name_def guard_defs write_json_event_def
        Let_def destroy_string_def on_heap_def json_safe_path_def)

text \<open>
  Claim C6: every loop-start recorded in a function activation has a matching loop-end
  by the time the function-exit record of that activation is written. Read back with
  \<open>replay\<close>, the log of every process run whose sink opened is accepted, so no
  \<^verbatim>\<open>func_exit\<close> record is written while a loop id of its activation is pending, and
  the loop ids pending in the log are those in \<open>activeLoops\<close> of the live frames.
  This is so because of what the exit handler does on a running engine with a frame to
  pop: it writes one \<^verbatim>\<open>loop_end\<close> record for every id still in the frame's
  \<open>activeLoops\<close>, the innermost (last opened) first, then pops the frame, then
  writes the \<^verbatim>\<open>func_exit\<close> record.
\<close>

theorem loops_closed_before_func_exit:
  assumes "running s" and "0 < g_depth s" and "exit_func_name dl = Some nm"
    and "g_call_stack s = fr # frs"
  shows "replay (recorded (process_run True pre ns))
           (map activeLoops (g_call_stack (run pre tracer_initial)))
         = Some (map activeLoops (g_call_stack (process_run True pre ns)))
       \<and> recorded (cyg_profile_func_exit func caller dl s)
         = recorded s
           @ synthetic_loop_ends (g_current_function s) (g_depth s) (g_event_counter s)
               (rev (activeLoops fr))
           @ [\<lparr> ev_id = g_event_counter s + of_nat (length (activeLoops fr)),
                ev_type = ''func_exit'', ev_addr = func, ev_func = nm,
                ev_depth = g_depth s, ev_extra = None \<rparr>]
       \<and> map event_loop_id
           (synthetic_loop_ends (g_current_function s) (g_depth s) (g_event_counter s)
              (rev (activeLoops fr)))
         = map Some (rev (activeLoops fr))
       \<and> g_call_stack (cyg_profile_func_exit func caller dl s) = frs"
  using replay_process_run [of pre ns] func_exit_recorded [OF assms, of func caller]
    func_exit_pops(1) [OF assms(1,2,3), of func caller] assms(4)
  by (simp add: map_event_loop_id_synthetic)

theorem loops_closed_before_func_exit_witness:
  "running open_loops_state
   \<and> recorded (cyg_profile_func_exit 10 1 sym_g open_loops_state)
     = recorded open_loops_state
       @ [\<lparr> ev_id = 3, ev_type = ''loop_end'', ev_addr = nullptr, ev_func = ''g'',
            ev_depth = 1,
            ev_extra = Some [(''loopId'', JInt 2), (''file'', JStr ''unknown''),
                             (''line'', JInt 0)] \<rparr>,
          \<lparr> ev_id = 4, ev_type = ''loop_end'', ev_addr = nullptr, ev_func = ''g'',
            ev_depth = 1,
            ev_extra = Some [(''loopId'', JInt 1), (''file'', JStr ''unknown''),
                             (''line'', JInt 0)] \<rparr>,
          \<lparr> ev_id = 5, ev_type = ''func_exit'', ev_addr = 10, ev_func = ''g'',
            ev_depth = 1, ev_extra = None \<rparr>]
   \<and> g_call_stack (cyg_profile_func_exit 10 1 sym_g open_loops_state) = []"
proof -
  have r: "running open_loops_state"
    by (simp add: open_loops_state_def process_run_opened)
  have pos: "0 < g_depth open_loops_state"
    by (simp add: open_loops_state_eval)
  have nm: "exit_func_name sym_g = Some ''g''"
    by (simp add: exit_func_name_def sym_g_def)
  show ?thesis
    using r loops_closed_before_func_exit [OF r pos nm open_loops_state_eval(1), of "[]" "[]" 10 1]
    by (simp add: open_loops_state_eval)
qed

end
